theory Spec2Isabelle
  imports Main "HOL-Library.Word"
begin

unbundle bit_operations_syntax

section \<open>The shader program binary cache of shaders\_binary.cpp\<close>

text \<open>
  The program talks to two things outside itself: the OpenGL driver and the file system.
  Both are part of an explicit state, the \<open>world\<close>, which every function takes and
  returns. What the driver and the disk answer is not in the source, so it is a parameter:
  fields of the world that the functions only read. The theorems hold for every world.
\<close>

subsection \<open>OpenGL types and constants\<close>

type_synonym GLuint = "32 word"
type_synonym GLint = "32 word"     \<comment> \<open>signed: compared through \<open>sint\<close>\<close>
type_synonym GLsizei = "32 word"   \<comment> \<open>signed: compared through \<open>sint\<close>\<close>
type_synonym GLenum = "32 word"
type_synonym GLubyte = "8 word"

definition GL_FALSE :: GLint where "GL_FALSE = 0"
definition GL_TRUE :: GLint where "GL_TRUE = 1"
definition GL_NO_ERROR :: GLenum where "GL_NO_ERROR = 0"
definition GL_INVALID_VALUE :: GLenum where "GL_INVALID_VALUE = 0x0501"
definition GL_INVALID_OPERATION :: GLenum where "GL_INVALID_OPERATION = 0x0502"
definition GL_VERTEX_SHADER :: GLenum where "GL_VERTEX_SHADER = 0x8B31"
definition GL_FRAGMENT_SHADER :: GLenum where "GL_FRAGMENT_SHADER = 0x8B30"

subsection \<open>Driver objects\<close>

record shader_object =
  shader_type :: GLenum
  shader_source :: string
  compile_status :: GLint
  shader_log :: string

record program_object =
  attached :: "GLuint list"
  link_status :: GLint
  info_log :: string
  binary_length :: GLint           \<comment> \<open>what the query GL\_PROGRAM\_BINARY\_LENGTH reports\<close>
  binary_format :: GLenum          \<comment> \<open>the format tag the retrieval call returns\<close>
  binary :: "GLubyte list"         \<comment> \<open>the bytes the retrieval call returns\<close>

subsection \<open>Standard output and file events\<close>

text \<open>
  A line sent to \<open>std::cout\<close> is the list of the pieces inserted with \<open><<\<close>: string
  literals as they are in the source, numbers as numbers (their decimal rendering is not
  modelled).
\<close>

datatype token = Str string | Num int

text \<open>
  Every call of the source on a file stream leaves one event, in program order: opening
  for reading or writing (attempted, whether or not it succeeds), \<open>read\<close> with the number
  of bytes asked for, \<open>write\<close> with the number of bytes handed over.
\<close>

datatype io_event =
  Open_in string | Read_in string nat | Open_out string | Write_out string nat

subsection \<open>The world\<close>

record world =
  \<comment> \<open>driver: answers\<close>
  num_formats :: GLint                    \<comment> \<open>GL\_NUM\_PROGRAM\_BINARY\_FORMATS\<close>
  glGetProgramBinary_loaded :: bool       \<comment> \<open>the loader's function pointer is not null\<close>
  glProgramBinary_loaded :: bool
  new_names :: "GLuint list"              \<comment> \<open>names the next glCreate calls hand out\<close>
  compiler :: "GLenum \<Rightarrow> string \<Rightarrow> GLint \<times> string"
  linker :: "shader_object option list \<Rightarrow> GLint \<times> string \<times> GLint \<times> GLenum \<times> GLubyte list"
  loader :: "GLenum \<Rightarrow> GLubyte list \<Rightarrow> GLenum \<times> GLint \<times> string \<times> GLint \<times> GLenum \<times> GLubyte list"
  \<comment> \<open>driver: state\<close>
  gl_error :: GLenum
  shaders :: "GLuint \<rightharpoonup> shader_object"
  programs :: "GLuint \<rightharpoonup> program_object"
  \<comment> \<open>file system\<close>
  files :: "string \<rightharpoonup> GLubyte list"
  can_open_write :: "string \<Rightarrow> bool"
  write_limit :: "string \<Rightarrow> nat option"  \<comment> \<open>bytes the file accepts before a write fails\<close>
  \<comment> \<open>process\<close>
  can_allocate :: "nat \<Rightarrow> bool"          \<comment> \<open>whether a buffer of that many bytes can be had\<close>
  indeterminate :: "32 word"              \<comment> \<open>what an uninitialised local holds\<close>
  indeterminate_text :: string            \<comment> \<open>what an uninitialised character array shows\<close>
  binarySupported :: "bool option"        \<comment> \<open>the function-local static; \<open>None\<close> before its initialisation\<close>
  out :: "token list list"                \<comment> \<open>lines written to std::cout\<close>
  io :: "io_event list"

definition cout :: "token list \<Rightarrow> world \<Rightarrow> world" where
  "cout line w = w\<lparr>out := out w @ [line]\<rparr>"

definition log_io :: "io_event \<Rightarrow> world \<Rightarrow> world" where
  "log_io e w = w\<lparr>io := io w @ [e]\<rparr>"

subsection \<open>Host byte order\<close>

text \<open>
  The source writes the two header fields as the four bytes of their object
  representation; the model takes the little-endian layout of the hosts it is built for.
\<close>

definition le_bytes :: "32 word \<Rightarrow> GLubyte list" where
  "le_bytes x = [ucast x, ucast (drop_bit 8 x), ucast (drop_bit 16 x), ucast (drop_bit 24 x)]"

definition le_word :: "GLubyte list \<Rightarrow> 32 word" where
  "le_word bs = foldr (\<lambda>b acc. ucast b OR push_bit 8 acc) bs 0"

subsection \<open>The driver calls the source makes\<close>

text \<open>
  The error flag is sticky: a call records its error only when no error is pending, and
  \<open>glGetError\<close> returns the flag and clears it.
\<close>

definition raise_error :: "GLenum \<Rightarrow> world \<Rightarrow> world" where
  "raise_error e w = (if gl_error w = GL_NO_ERROR then w\<lparr>gl_error := e\<rparr> else w)"

definition glGetError :: "world \<Rightarrow> GLenum \<times> world" where
  "glGetError w = (gl_error w, w\<lparr>gl_error := GL_NO_ERROR\<rparr>)"

text \<open>The name 0 is reserved: it never names an object.\<close>

definition program_named :: "world \<Rightarrow> GLuint \<Rightarrow> program_object option" where
  "program_named w n = (if n = 0 then None else programs w n)"

definition shader_named :: "world \<Rightarrow> GLuint \<Rightarrow> shader_object option" where
  "shader_named w n = (if n = 0 then None else shaders w n)"

text \<open>
  A query on a name that is no live object writes nothing: the caller's variable keeps
  the value \<open>cur\<close> it had, and an error is recorded.
\<close>

definition glGetProgramiv :: "GLuint \<Rightarrow> (program_object \<Rightarrow> GLint) \<Rightarrow> GLint \<Rightarrow> world \<Rightarrow> GLint \<times> world" where
  "glGetProgramiv program pname cur w =
     (case program_named w program of
        None \<Rightarrow> (cur, raise_error GL_INVALID_VALUE w)
      | Some obj \<Rightarrow> (pname obj, w))"

text \<open>GL\_INFO\_LOG\_LENGTH counts the terminating null character of a non-empty log.\<close>

definition info_log_length :: "program_object \<Rightarrow> GLint" where
  "info_log_length obj = (if info_log obj = [] then 0 else of_nat (length (info_log obj) + 1))"

definition glGetProgramInfoLog :: "GLuint \<Rightarrow> string \<Rightarrow> world \<Rightarrow> string \<times> world" where
  "glGetProgramInfoLog program cur w =
     (case program_named w program of
        None \<Rightarrow> (cur, raise_error GL_INVALID_VALUE w)
      | Some obj \<Rightarrow> (info_log obj, w))"

definition fresh_name :: "world \<Rightarrow> GLuint \<times> world" where
  "fresh_name w =
     (case new_names w of
        [] \<Rightarrow> (0, w)
      | n # ns \<Rightarrow> (n, w\<lparr>new_names := ns\<rparr>))"

definition glCreateProgram :: "world \<Rightarrow> GLuint \<times> world" where
  "glCreateProgram w =
     (let (n, w1) = fresh_name w in
      if n = 0 then (0, w1)
      else (n, w1\<lparr>programs := (programs w1)(n \<mapsto>
              \<lparr>attached = [], link_status = GL_FALSE, info_log = [],
               binary_length = 0, binary_format = 0, binary = []\<rparr>)\<rparr>))"

text \<open>Deleting the name 0 is silently ignored; deleting a live object releases it.\<close>

definition glDeleteProgram :: "GLuint \<Rightarrow> world \<Rightarrow> world" where
  "glDeleteProgram program w =
     (if program = 0 then w
      else case program_named w program of
        None \<Rightarrow> raise_error GL_INVALID_VALUE w
      | Some obj \<Rightarrow> w\<lparr>programs := (programs w)(program := None)\<rparr>)"

text \<open>
  \<open>glGetProgramBinary(program, bufSize, &length, &binaryFormat, binary)\<close>: the driver
  writes the program's binary at the front of the buffer and reports its length and
  format. It never writes past \<open>bufSize\<close>: a binary that does not fit is an error and
  nothing is written.
\<close>

definition glGetProgramBinary ::
  "GLuint \<Rightarrow> nat \<Rightarrow> GLsizei \<times> GLenum \<times> GLubyte list \<Rightarrow> world \<Rightarrow> (GLsizei \<times> GLenum \<times> GLubyte list) \<times> world" where
  "glGetProgramBinary program bufSize cur w =
     (case program_named w program of
        None \<Rightarrow> (cur, raise_error GL_INVALID_VALUE w)
      | Some obj \<Rightarrow>
          if bufSize < length (binary obj) then (cur, raise_error GL_INVALID_OPERATION w)
          else ((of_nat (length (binary obj)), binary_format obj,
                 binary obj @ drop (length (binary obj)) (snd (snd cur))), w))"

text \<open>
  \<open>glProgramBinary(program, binaryFormat, binary, length)\<close>: the driver decides what
  becomes of the object (the \<open>loader\<close> of the world), and may record an error.
\<close>

definition glProgramBinary :: "GLuint \<Rightarrow> GLenum \<Rightarrow> GLubyte list \<Rightarrow> world \<Rightarrow> world" where
  "glProgramBinary program fmt blob w =
     (case program_named w program of
        None \<Rightarrow> raise_error GL_INVALID_VALUE w
      | Some obj \<Rightarrow>
          (case loader w fmt blob of (e, st, lg, bl, bf, bs) \<Rightarrow>
             raise_error e (w\<lparr>programs := (programs w)(program \<mapsto>
               obj\<lparr>link_status := st, info_log := lg, binary_length := bl,
                   binary_format := bf, binary := bs\<rparr>)\<rparr>)))"

subsection \<open>checkProgramBinarySupport\<close>

text \<open>
  \<open>glGetIntegerv(GL_NUM_PROGRAM_BINARY_FORMATS, &formats)\<close> stores the driver's count,
  \<open>num_formats\<close>, in \<open>formats\<close>. A driver that stores nothing leaves the initial 0
  there: it is the driver with \<open>num_formats = 0\<close>.
\<close>

definition checkProgramBinarySupport :: "world \<Rightarrow> bool \<times> world" where
  "checkProgramBinarySupport w =
     (let formats = num_formats w in
      if sint formats < 1 then
        (False, cout [Str ''Driver reports no program binary formats supported''] w)
      else if \<not> glGetProgramBinary_loaded w then
        (True, cout [Str ''glGetProgramBinary function not available''] w)
      else
        (True, cout [Str ''Program binary supported. Number of formats: '', Num (sint formats)] w))"

subsection \<open>File streams\<close>

text \<open>
  \<open>std::ofstream file(filename, std::ios::binary)\<close> creates or empties the file when the
  open succeeds. A \<open>write\<close> on a stream that is already bad does nothing; otherwise the
  bytes are appended up to the file's limit, and a write cut short sets the stream bad.
  The flag \<open>bad\<close> is the negation of what \<open>file.good()\<close> returns after \<open>close\<close>.
\<close>

definition ofstream_open :: "string \<Rightarrow> world \<Rightarrow> bool \<times> world" where
  "ofstream_open filename w =
     (let w1 = log_io (Open_out filename) w in
      if can_open_write w1 filename then (True, w1\<lparr>files := (files w1)(filename \<mapsto> [])\<rparr>)
      else (False, w1))"

definition ofstream_write :: "string \<Rightarrow> GLubyte list \<Rightarrow> bool \<Rightarrow> world \<Rightarrow> bool \<times> world" where
  "ofstream_write filename bs bad w =
     (let w1 = log_io (Write_out filename (length bs)) w in
      if bad then (True, w1)
      else
        let all = (case files w1 filename of None \<Rightarrow> [] | Some c \<Rightarrow> c) @ bs in
        case write_limit w1 filename of
          None \<Rightarrow> (False, w1\<lparr>files := (files w1)(filename \<mapsto> all)\<rparr>)
        | Some k \<Rightarrow>
            if length all \<le> k then (False, w1\<lparr>files := (files w1)(filename \<mapsto> all)\<rparr>)
            else (True, w1\<lparr>files := (files w1)(filename \<mapsto> take k all)\<rparr>))"

text \<open>
  \<open>std::istream::read(s, n)\<close>: on a stream that has failed it reads nothing and
  \<open>gcount()\<close> is 0; otherwise it takes up to \<open>n\<close> bytes, \<open>gcount()\<close> is their number,
  and fewer than \<open>n\<close> sets the stream failed. \<open>close\<close> leaves \<open>gcount()\<close> as it is.
\<close>

record ifstream =
  unread :: "GLubyte list"
  failed :: bool
  gcount :: nat

definition istream_read :: "nat \<Rightarrow> ifstream \<Rightarrow> GLubyte list \<times> ifstream" where
  "istream_read n s =
     (if failed s then ([], s\<lparr>gcount := 0\<rparr>)
      else let got = take n (unread s) in
        (got, \<lparr>unread = drop n (unread s), failed = (length got < n), gcount = length got\<rparr>))"

text \<open>
  Reading into a four-byte local overwrites as many of its bytes as were read; the rest
  keep what the variable held.
\<close>

definition store4 :: "GLubyte list \<Rightarrow> 32 word \<Rightarrow> 32 word" where
  "store4 got cur = le_word (got @ drop (length got) (le_bytes cur))"

subsection \<open>saveProgramBinary\<close>

text \<open>
  The result is \<open>None\<close> where the source leaves defined behaviour: it calls
  \<open>glGetProgramBinary\<close> through a null pointer, or hands \<open>write\<close> a count outside the
  vector. Otherwise it is the returned flag and the world after the call.
\<close>

definition saveProgramBinary :: "GLuint \<Rightarrow> string \<Rightarrow> world \<Rightarrow> (bool \<times> world) option" where
  "saveProgramBinary program filename w =
     (if program = 0 then Some (False, cout [Str ''Invalid program object''] w)
      else
        let (linkStatus, w1) = glGetProgramiv program link_status (indeterminate w) w in
        if linkStatus \<noteq> GL_TRUE then
          Some (False, cout [Str ''Program is not successfully linked''] w1)
        else
          let (supported, w2) = checkProgramBinarySupport w1 in
          if \<not> supported then
            Some (False, cout [Str ''Program binary not supported, cannot save''] w2)
          else
            let (len, w3) = glGetProgramiv program binary_length 0 w2 in
            if sint len \<le> 0 then
              Some (False, cout [Str ''Program binary length is 0 or invalid: '', Num (sint len)] w3)
            else
              let w4 = cout [Str ''Program binary length: '', Num (sint len), Str '' bytes''] w3;
                  binaryData0 = replicate (nat (sint len)) (0 :: GLubyte)
              in
              if \<not> glGetProgramBinary_loaded w4 then None
              else
                let ((actualLength, binaryFormat, binaryData), w5) =
                      glGetProgramBinary program (nat (sint len)) (0, 0, binaryData0) w4;
                    (error, w6) = glGetError w5
                in
                if error \<noteq> GL_NO_ERROR then
                  Some (False, cout [Str ''OpenGL error after glGetProgramBinary: '', Num (uint error)] w6)
                else
                  let w7 = (if actualLength \<noteq> len then
                              cout [Str ''Warning: Actual binary length ('', Num (sint actualLength),
                                    Str '') differs from reported length ('', Num (sint len), Str '')''] w6
                            else w6)
                  in
                  if actualLength = 0 then Some (False, cout [Str ''No binary data retrieved''] w7)
                  else
                    let (opened, w8) = ofstream_open filename w7 in
                    if \<not> opened then
                      Some (False, cout [Str ''Failed to open file for writing: '', Str filename] w8)
                    else if sint actualLength < 0 \<or> length binaryData < nat (sint actualLength) then None
                    else
                      let (bad1, w9) = ofstream_write filename (le_bytes binaryFormat) False w8;
                          (bad2, w10) = ofstream_write filename (le_bytes actualLength) bad1 w9;
                          (bad3, w11) = ofstream_write filename
                                          (take (nat (sint actualLength)) binaryData) bad2 w10
                      in
                      if bad3 then
                        Some (False, cout [Str ''Failed to write program binary to file''] w11)
                      else
                        Some (True, cout [Str ''Program binary saved successfully: '', Str filename,
                                          Str '' (format: '', Num (uint binaryFormat),
                                          Str '', size: '', Num (sint actualLength), Str '' bytes)''] w11))"

subsection \<open>loadProgramBinary\<close>

text \<open>
  The result is \<open>None\<close> where the function does not return to its caller: the
  allocation of the vector of \<open>length\<close> bytes throws \<open>std::bad_alloc\<close>, which nothing
  catches, or the source calls \<open>glProgramBinary\<close> through a null pointer.

  The vector is allocated before anything is read into it, with the length the file
  declares, up to \<open>2\<^sup>3\<^sup>1 - 1\<close> bytes. Memory is taken to suffice for a buffer no longer
  than the rest of the file, as it did when \<open>saveProgramBinary\<close> wrote the file from a
  buffer at least as long; a longer one is allocated or not as \<open>can_allocate\<close> says.
  The vectors whose sizes the driver reports (the binary in \<open>saveProgramBinary\<close>, the
  information log here) are taken to be allocated.

  The function is written in two parts. \<open>loadProgramBinary_submit\<close> is its second half,
  from \<open>glCreateProgram\<close> to the end, as a function of the format tag and the bytes
  read from the file; \<open>loadProgramBinary\<close> is the first half, which reads the file and
  then runs the second.
\<close>

definition loadProgramBinary_submit ::
  "string \<Rightarrow> GLenum \<Rightarrow> GLubyte list \<Rightarrow> world \<Rightarrow> (GLuint \<times> world) option" where
  "loadProgramBinary_submit filename binaryFormat binaryData w5 =
     (let (program, w6) = glCreateProgram w5 in
      if \<not> glProgramBinary_loaded w6 then None
      else
        let w7 = glProgramBinary program binaryFormat binaryData w6;
            (error, w8) = glGetError w7
        in
        if error \<noteq> GL_NO_ERROR then
          Some (0, glDeleteProgram program
                     (cout [Str ''OpenGL error after glProgramBinary: '', Num (uint error)] w8))
        else
          let (success, w9) = glGetProgramiv program link_status 0 w8 in
          if success = GL_FALSE then
            let w10 = cout [Str ''Failed to load program binary''] w9;
                (infoLogLength, w11) = glGetProgramiv program info_log_length 0 w10;
                w12 = (if 0 < sint infoLogLength then
                         let (infoLog, w') = glGetProgramInfoLog program [] w11 in
                         cout [Str ''Program binary load error: '', Str infoLog] w'
                       else w11)
            in Some (0, glDeleteProgram program w12)
          else
            Some (program, cout [Str ''Program binary loaded successfully: '', Str filename] w9))"

definition loadProgramBinary :: "string \<Rightarrow> world \<Rightarrow> (GLuint \<times> world) option" where
  "loadProgramBinary filename w =
     (let (supported, w1) = checkProgramBinarySupport w in
      if \<not> supported then
        Some (0, cout [Str ''Program binary not supported, cannot load''] w1)
      else
        let w2 = log_io (Open_in filename) w1 in
        case files w2 filename of
          None \<Rightarrow> Some (0, cout [Str ''Failed to open file for reading: '', Str filename] w2)
        | Some content \<Rightarrow>
            let file0 = \<lparr>unread = content, failed = False, gcount = 0\<rparr>;
                (got1, file1) = istream_read 4 file0;
                binaryFormat = store4 got1 (indeterminate w2);
                w3 = log_io (Read_in filename 4) w2;
                (got2, file2) = istream_read 4 file1;
                len = store4 got2 (indeterminate w2);
                w4 = log_io (Read_in filename 4) w3
            in
            if sint len \<le> 0 then
              Some (0, cout [Str ''Invalid binary length in file: '', Num (sint len)] w4)
            else if length (unread file2) < nat (sint len) \<and> \<not> can_allocate w4 (nat (sint len))
            then None
            else
              let (got3, file3) = istream_read (nat (sint len)) file2;
                  binaryData = got3 @ replicate (nat (sint len) - length got3) (0 :: GLubyte);
                  w5 = log_io (Read_in filename (nat (sint len))) w4
              in
              if int (gcount file3) \<noteq> sint len then
                Some (0, cout [Str ''File read incomplete. Expected: '', Num (sint len),
                               Str '', Actual: '', Num (int (gcount file3))] w5)
              else loadProgramBinary_submit filename binaryFormat binaryData w5)"

subsection \<open>createShaderProgramFromSource\<close>

definition glCreateShader :: "GLenum \<Rightarrow> world \<Rightarrow> GLuint \<times> world" where
  "glCreateShader ty w =
     (let (n, w1) = fresh_name w in
      if n = 0 then (0, w1)
      else (n, w1\<lparr>shaders := (shaders w1)(n \<mapsto>
              \<lparr>shader_type = ty, shader_source = [], compile_status = GL_FALSE, shader_log = []\<rparr>)\<rparr>))"

definition glShaderSource :: "GLuint \<Rightarrow> string \<Rightarrow> world \<Rightarrow> world" where
  "glShaderSource shader src w =
     (case shader_named w shader of
        None \<Rightarrow> raise_error GL_INVALID_VALUE w
      | Some obj \<Rightarrow> w\<lparr>shaders := (shaders w)(shader \<mapsto> obj\<lparr>shader_source := src\<rparr>)\<rparr>)"

definition glCompileShader :: "GLuint \<Rightarrow> world \<Rightarrow> world" where
  "glCompileShader shader w =
     (case shader_named w shader of
        None \<Rightarrow> raise_error GL_INVALID_VALUE w
      | Some obj \<Rightarrow>
          (case compiler w (shader_type obj) (shader_source obj) of (st, lg) \<Rightarrow>
             w\<lparr>shaders := (shaders w)(shader \<mapsto> obj\<lparr>compile_status := st, shader_log := lg\<rparr>)\<rparr>))"

definition glGetShaderiv :: "GLuint \<Rightarrow> (shader_object \<Rightarrow> GLint) \<Rightarrow> GLint \<Rightarrow> world \<Rightarrow> GLint \<times> world" where
  "glGetShaderiv shader pname cur w =
     (case shader_named w shader of
        None \<Rightarrow> (cur, raise_error GL_INVALID_VALUE w)
      | Some obj \<Rightarrow> (pname obj, w))"

text \<open>An info log is cut to the buffer size less the terminating null character.\<close>

definition glGetShaderInfoLog :: "GLuint \<Rightarrow> nat \<Rightarrow> string \<Rightarrow> world \<Rightarrow> string \<times> world" where
  "glGetShaderInfoLog shader maxLength cur w =
     (case shader_named w shader of
        None \<Rightarrow> (cur, raise_error GL_INVALID_VALUE w)
      | Some obj \<Rightarrow> (take (maxLength - 1) (shader_log obj), w))"

definition glGetProgramInfoLogN :: "GLuint \<Rightarrow> nat \<Rightarrow> string \<Rightarrow> world \<Rightarrow> string \<times> world" where
  "glGetProgramInfoLogN program maxLength cur w =
     (case program_named w program of
        None \<Rightarrow> (cur, raise_error GL_INVALID_VALUE w)
      | Some obj \<Rightarrow> (take (maxLength - 1) (info_log obj), w))"

text \<open>
  Deleting a shader releases its name. (A driver keeps a shader that is still attached
  until it is detached; the model drops it at once, and nothing below looks at a shader
  after its deletion.)
\<close>

definition glDeleteShader :: "GLuint \<Rightarrow> world \<Rightarrow> world" where
  "glDeleteShader shader w =
     (if shader = 0 then w
      else case shader_named w shader of
        None \<Rightarrow> raise_error GL_INVALID_VALUE w
      | Some obj \<Rightarrow> w\<lparr>shaders := (shaders w)(shader := None)\<rparr>)"

definition glAttachShader :: "GLuint \<Rightarrow> GLuint \<Rightarrow> world \<Rightarrow> world" where
  "glAttachShader program shader w =
     (case program_named w program of
        None \<Rightarrow> raise_error GL_INVALID_VALUE w
      | Some obj \<Rightarrow>
          (case shader_named w shader of
             None \<Rightarrow> raise_error GL_INVALID_VALUE w
           | Some sh \<Rightarrow> w\<lparr>programs := (programs w)(program \<mapsto> obj\<lparr>attached := attached obj @ [shader]\<rparr>)\<rparr>))"

definition glLinkProgram :: "GLuint \<Rightarrow> world \<Rightarrow> world" where
  "glLinkProgram program w =
     (case program_named w program of
        None \<Rightarrow> raise_error GL_INVALID_VALUE w
      | Some obj \<Rightarrow>
          (case linker w (map (shader_named w) (attached obj)) of (st, lg, bl, bf, bs) \<Rightarrow>
             w\<lparr>programs := (programs w)(program \<mapsto>
               obj\<lparr>link_status := st, info_log := lg, binary_length := bl,
                   binary_format := bf, binary := bs\<rparr>)\<rparr>))"

definition vertexShaderSource :: string where
  "vertexShaderSource =
     ''#version 330 core\<newline>layout (location = 0) in vec3 aPos;\<newline>void main()\<newline>{\<newline>   gl_Position = vec4(aPos, 1.0);\<newline>}''"

definition fragmentShaderSource :: string where
  "fragmentShaderSource =
     ''#version 330 core\<newline>out vec4 FragColor;\<newline>uniform vec4 ourColor;\<newline>void main()\<newline>{\<newline>   FragColor = ourColor;\<newline>}\<newline>''"

definition createShaderProgramFromSource :: "world \<Rightarrow> GLuint \<times> world" where
  "createShaderProgramFromSource w =
     (let w1 = cout [Str ''Compiling shaders from source...''] w;
          (vertexShader, w2) = glCreateShader GL_VERTEX_SHADER w1;
          w3 = glShaderSource vertexShader vertexShaderSource w2;
          w4 = glCompileShader vertexShader w3;
          (success1, w5) = glGetShaderiv vertexShader compile_status (indeterminate w4) w4
      in
      if success1 = 0 then
        let (infoLog, w6) = glGetShaderInfoLog vertexShader 512 (indeterminate_text w5) w5 in
        (0, cout [Str ''ERROR::SHADER::VERTEX::COMPILATION_FAILED\<newline>'', Str infoLog] w6)
      else
        let (fragmentShader, w6) = glCreateShader GL_FRAGMENT_SHADER w5;
            w7 = glShaderSource fragmentShader fragmentShaderSource w6;
            w8 = glCompileShader fragmentShader w7;
            (success2, w9) = glGetShaderiv fragmentShader compile_status success1 w8
        in
        if success2 = 0 then
          let (infoLog, w10) = glGetShaderInfoLog fragmentShader 512 (indeterminate_text w9) w9;
              w11 = cout [Str ''ERROR::SHADER::FRAGMENT::COMPILATION_FAILED\<newline>'', Str infoLog] w10
          in (0, glDeleteShader vertexShader w11)
        else
          let (shaderProgram, w10) = glCreateProgram w9;
              w11 = glAttachShader shaderProgram vertexShader w10;
              w12 = glAttachShader shaderProgram fragmentShader w11;
              w13 = glLinkProgram shaderProgram w12;
              (success3, w14) = glGetProgramiv shaderProgram link_status success2 w13
          in
          if success3 = 0 then
            let (infoLog, w15) = glGetProgramInfoLogN shaderProgram 512 (indeterminate_text w14) w14;
                w16 = cout [Str ''ERROR::SHADER::PROGRAM::LINKING_FAILED\<newline>'', Str infoLog] w15
            in (0, glDeleteProgram shaderProgram
                     (glDeleteShader fragmentShader (glDeleteShader vertexShader w16)))
          else
            (shaderProgram,
             cout [Str ''Shader program compiled and linked successfully from source'']
               (glDeleteShader fragmentShader (glDeleteShader vertexShader w14))))"

subsection \<open>createOrLoadShaderProgram\<close>

definition binaryFilename :: string where
  "binaryFilename = ''shader_program.bin''"

text \<open>
  \<open>static bool binarySupported = checkProgramBinarySupport();\<close> runs the probe the
  first time control passes the declaration and keeps the value for later calls.
\<close>

definition init_binarySupported :: "world \<Rightarrow> bool \<times> world" where
  "init_binarySupported w =
     (case binarySupported w of
        Some b \<Rightarrow> (b, w)
      | None \<Rightarrow> (let (b, w1) = checkProgramBinarySupport w in (b, w1\<lparr>binarySupported := Some b\<rparr>)))"

definition createOrLoadShaderProgram :: "world \<Rightarrow> (GLuint \<times> world) option" where
  "createOrLoadShaderProgram w =
     (let (supported, w1) = init_binarySupported w;
          compile_from_source = (\<lambda>w3.
            let (program, w4) = createShaderProgramFromSource w3 in
            if program = 0 then
              Some (0, cout [Str ''Failed to compile shader program from source''] w4)
            else if supported then
              (case saveProgramBinary program binaryFilename w4 of
                 None \<Rightarrow> None
               | Some (saved, w5) \<Rightarrow>
                   if \<not> saved then
                     Some (program, cout [Str ''Warning: Failed to save program binary, but program compiled successfully''] w5)
                   else
                     Some (program, cout [Str ''Program binary cached for future use''] w5))
            else Some (program, w4))
      in
      if supported then
        (case loadProgramBinary binaryFilename w1 of
           None \<Rightarrow> None
         | Some (program, w2) \<Rightarrow>
             if program \<noteq> 0 then
               Some (program, cout [Str ''Successfully loaded program from binary cache''] w2)
             else
               compile_from_source
                 (cout [Str ''Binary cache not found or invalid, compiling from source...''] w2))
      else
        compile_from_source
          (cout [Str ''Program binary not supported, compiling from source...''] w1))"

subsection \<open>Vocabulary of the properties\<close>

fun event_path :: "io_event \<Rightarrow> string" where
  "event_path (Open_in p) = p"
| "event_path (Read_in p n) = p"
| "event_path (Open_out p) = p"
| "event_path (Write_out p n) = p"

text \<open>
  \<open>touches_only f w w'\<close>: between the worlds \<open>w\<close> and \<open>w'\<close> no file other than
  \<open>f\<close> has changed, and every stream call made in between was on \<open>f\<close>.
\<close>

definition touches_only :: "string \<Rightarrow> world \<Rightarrow> world \<Rightarrow> bool" where
  "touches_only f w w' \<longleftrightarrow>
     (\<forall>p. p \<noteq> f \<longrightarrow> files w' p = files w p) \<and>
     (\<exists>es. io w' = io w @ es \<and> (\<forall>e \<in> set es. event_path e = f))"

text \<open>
  Postconditions on the world a call leaves: \<open>ends_in\<close> for a call that always
  returns, \<open>may_end_in\<close> for one whose result is optional (nothing is claimed where
  it is \<open>None\<close>).
\<close>

definition ends_in :: "(world \<Rightarrow> bool) \<Rightarrow> 'a \<times> world \<Rightarrow> bool" where
  "ends_in I r \<longleftrightarrow> I (snd r)"

definition may_end_in :: "(world \<Rightarrow> bool) \<Rightarrow> ('a \<times> world) option \<Rightarrow> bool" where
  "may_end_in I r \<longleftrightarrow> (case r of None \<Rightarrow> True | Some (a, w') \<Rightarrow> I w')"

text \<open>
  The world a successful \<open>saveProgramBinary\<close> leaves, for a program object \<open>obj\<close>
  saved to \<open>f\<close>: the error flag read and cleared, the four stream events, the file,
  and the lines printed.
\<close>

definition saved_world :: "program_object \<Rightarrow> string \<Rightarrow> world \<Rightarrow> world" where
  "saved_world obj f w =
     w\<lparr>gl_error := GL_NO_ERROR,
       io := io w @ [Open_out f, Write_out f 4, Write_out f 4, Write_out f (length (binary obj))],
       files := (files w)(f \<mapsto> le_bytes (binary_format obj) @
                  le_bytes (of_nat (length (binary obj))) @ binary obj),
       out := out w @
         ([[Str ''Program binary supported. Number of formats: '', Num (sint (num_formats w))],
           [Str ''Program binary length: '', Num (sint (binary_length obj)), Str '' bytes'']] @
          (if of_nat (length (binary obj)) \<noteq> binary_length obj then
             [[Str ''Warning: Actual binary length ('', Num (int (length (binary obj))),
               Str '') differs from reported length ('', Num (sint (binary_length obj)), Str '')'']]
           else []) @
          [[Str ''Program binary saved successfully: '', Str f,
            Str '' (format: '', Num (uint (binary_format obj)),
            Str '', size: '', Num (int (length (binary obj))), Str '' bytes)'']])\<rparr>"

subsection \<open>Concrete worlds\<close>

text \<open>
  A driver with one binary format and one linked program, named 1, whose binary has three
  bytes although the length query reports five; every file can be written. The compiler,
  linker and loader accept everything.
\<close>

definition example_program :: program_object where
  "example_program =
     \<lparr>attached = [], link_status = GL_TRUE, info_log = [],
      binary_length = 5, binary_format = 0x8740, binary = [1, 2, 3]\<rparr>"

definition example_world :: world where
  "example_world =
     \<lparr>num_formats = 1, glGetProgramBinary_loaded = True, glProgramBinary_loaded = True,
      new_names = [7, 8, 9],
      compiler = (\<lambda>ty src. (GL_TRUE, [])),
      linker = (\<lambda>objs. (GL_TRUE, [], 5, 0x8740, [1, 2, 3])),
      loader = (\<lambda>fmt bs. (GL_NO_ERROR, GL_TRUE, [], of_nat (length bs), fmt, bs)),
      gl_error = GL_NO_ERROR,
      shaders = Map.empty,
      programs = [1 \<mapsto> example_program],
      files = Map.empty,
      can_open_write = (\<lambda>p. True),
      write_limit = (\<lambda>p. None),
      can_allocate = (\<lambda>n. True),
      indeterminate = 0, indeterminate_text = [],
      binarySupported = None, out = [], io = []\<rparr>"

text \<open>The same driver, except that it refuses every binary handed back to it.\<close>

definition rejecting_world :: world where
  "rejecting_world =
     example_world\<lparr>loader := (\<lambda>fmt bs. (GL_NO_ERROR, GL_FALSE, ''rejected'', 0, 0, []))\<rparr>"

text \<open>The first driver again, with no file that can be opened for writing.\<close>

definition unwritable_world :: world where
  "unwritable_world = example_world\<lparr>can_open_write := (\<lambda>p. False)\<rparr>"

section \<open>Symbolic execution\<close>

subsection \<open>Words and bytes\<close>

lemma length_le_bytes [simp]: "length (le_bytes x) = 4"
  by (simp add: le_bytes_def)

lemma sint_of_nat_small:
  fixes L :: "32 word"
  assumes "n \<le> nat (sint L)"
  shows "sint (of_nat n :: 32 word) = int n"
proof -
  have "sint L < 2147483648" using sint_lt [of L] by simp
  with assms have n: "int n < 2147483648" by arith
  have "sint (of_nat n :: 32 word) = signed_take_bit 31 (int n)"
    by (simp add: signed_of_nat)
  also have "\<dots> = int n"
    using n by (simp add: signed_take_bit_int_eq_self)
  finally show ?thesis .
qed

subsection \<open>What each call returns, case by case\<close>

text \<open>
  One equation for each branch of a driver or stream call, under the condition that
  selects the branch. With them a run of one of the four functions is followed a call at
  a time, the calls themselves staying folded.
\<close>

lemma glGetProgramiv_Some:
  "program_named w p = Some obj \<Longrightarrow> glGetProgramiv p pname cur w = (pname obj, w)"
  by (simp add: glGetProgramiv_def)

lemma glGetProgramiv_None:
  "program_named w p = None \<Longrightarrow> glGetProgramiv p pname cur w = (cur, raise_error GL_INVALID_VALUE w)"
  by (simp add: glGetProgramiv_def)

lemma check_unsupported:
  "sint (num_formats w) < 1 \<Longrightarrow> checkProgramBinarySupport w =
     (False, cout [Str ''Driver reports no program binary formats supported''] w)"
  by (simp add: checkProgramBinarySupport_def)

lemma check_no_pointer:
  "\<not> sint (num_formats w) < 1 \<Longrightarrow> \<not> glGetProgramBinary_loaded w \<Longrightarrow> checkProgramBinarySupport w =
     (True, cout [Str ''glGetProgramBinary function not available''] w)"
  by (simp add: checkProgramBinarySupport_def)

lemma check_supported:
  "\<not> sint (num_formats w) < 1 \<Longrightarrow> glGetProgramBinary_loaded w \<Longrightarrow> checkProgramBinarySupport w =
     (True, cout [Str ''Program binary supported. Number of formats: '', Num (sint (num_formats w))] w)"
  by (simp add: checkProgramBinarySupport_def)

lemma glGetProgramBinary_fits:
  "program_named w p = Some obj \<Longrightarrow> \<not> n < length (binary obj) \<Longrightarrow>
   glGetProgramBinary p n cur w =
     ((of_nat (length (binary obj)), binary_format obj,
       binary obj @ drop (length (binary obj)) (snd (snd cur))), w)"
  by (simp add: glGetProgramBinary_def)

lemma glGetProgramBinary_too_small:
  "program_named w p = Some obj \<Longrightarrow> n < length (binary obj) \<Longrightarrow>
   glGetProgramBinary p n cur w = (cur, raise_error GL_INVALID_OPERATION w)"
  by (simp add: glGetProgramBinary_def)

lemma ofstream_open_ok:
  "can_open_write w f \<Longrightarrow> ofstream_open f w =
     (True, w\<lparr>io := io w @ [Open_out f], files := (files w)(f \<mapsto> [])\<rparr>)"
  by (simp add: ofstream_open_def log_io_def)

lemma ofstream_open_fail:
  "\<not> can_open_write w f \<Longrightarrow> ofstream_open f w = (False, w\<lparr>io := io w @ [Open_out f]\<rparr>)"
  by (simp add: ofstream_open_def log_io_def)

lemma ofstream_write_fits:
  "files w f = Some c \<Longrightarrow>
   (case write_limit w f of None \<Rightarrow> True | Some k \<Rightarrow> length c + length bs \<le> k) \<Longrightarrow>
   ofstream_write f bs False w =
     (False, w\<lparr>io := io w @ [Write_out f (length bs)], files := (files w)(f \<mapsto> c @ bs)\<rparr>)"
  by (simp add: ofstream_write_def log_io_def split: option.splits)

lemma ofstream_write_cut:
  "files w f = Some c \<Longrightarrow> write_limit w f = Some k \<Longrightarrow> k < length c + length bs \<Longrightarrow>
   ofstream_write f bs False w =
     (True, w\<lparr>io := io w @ [Write_out f (length bs)], files := (files w)(f \<mapsto> take k (c @ bs))\<rparr>)"
  by (simp add: ofstream_write_def log_io_def)

lemma ofstream_write_bad:
  "ofstream_write f bs True w = (True, w\<lparr>io := io w @ [Write_out f (length bs)]\<rparr>)"
  by (simp add: ofstream_write_def log_io_def)

lemma raise_error_fields [simp]:
  "num_formats (raise_error e w) = num_formats w"
  "glGetProgramBinary_loaded (raise_error e w) = glGetProgramBinary_loaded w"
  "glProgramBinary_loaded (raise_error e w) = glProgramBinary_loaded w"
  "new_names (raise_error e w) = new_names w"
  "compiler (raise_error e w) = compiler w"
  "linker (raise_error e w) = linker w"
  "loader (raise_error e w) = loader w"
  "shaders (raise_error e w) = shaders w"
  "programs (raise_error e w) = programs w"
  "files (raise_error e w) = files w"
  "can_open_write (raise_error e w) = can_open_write w"
  "write_limit (raise_error e w) = write_limit w"
  "indeterminate (raise_error e w) = indeterminate w"
  "indeterminate_text (raise_error e w) = indeterminate_text w"
  "binarySupported (raise_error e w) = binarySupported w"
  "out (raise_error e w) = out w"
  "io (raise_error e w) = io w"
  by (simp_all add: raise_error_def)

lemma program_named_raise_error [simp]: "program_named (raise_error e w) = program_named w"
  by (simp add: program_named_def fun_eq_iff)

lemma program_named_updates [simp]:
  "program_named (w\<lparr>out := a\<rparr>) = program_named w"
  "program_named (w\<lparr>io := b\<rparr>) = program_named w"
  "program_named (w\<lparr>files := c\<rparr>) = program_named w"
  "program_named (w\<lparr>gl_error := d\<rparr>) = program_named w"
  "program_named (w\<lparr>new_names := e\<rparr>) = program_named w"
  "program_named (w\<lparr>binarySupported := g\<rparr>) = program_named w"
  by (simp_all add: program_named_def fun_eq_iff)

lemma gl_error_raise_error_iff [simp]:
  "gl_error (raise_error e w) = GL_NO_ERROR \<longleftrightarrow> gl_error w = GL_NO_ERROR \<and> e = GL_NO_ERROR"
  by (simp add: raise_error_def)

lemma GL_consts [simp]: "GL_INVALID_VALUE \<noteq> GL_NO_ERROR" "GL_INVALID_OPERATION \<noteq> GL_NO_ERROR"
  "GL_TRUE \<noteq> GL_FALSE"
  by (simp_all add: GL_INVALID_VALUE_def GL_INVALID_OPERATION_def GL_NO_ERROR_def GL_TRUE_def GL_FALSE_def)

lemmas eval = cout_def glGetError_def Let_def

subsection \<open>saveProgramBinary: what a true result means\<close>

text \<open>
  A handle that names no program object never saves: whatever the uninitialised
  \<open>linkStatus\<close> holds, the length query leaves \<open>length\<close> at 0.
\<close>

lemma save_dead:
  assumes "program_named w program = None"
  shows "saveProgramBinary program f w \<noteq> Some (True, w1)"
proof (cases "program = 0")
  case True
  then show ?thesis by (simp add: saveProgramBinary_def)
next
  case nz: False
  show ?thesis
  proof (cases "indeterminate w = GL_TRUE")
    case False
    with nz assms show ?thesis
      by (simp add: saveProgramBinary_def glGetProgramiv_None)
  next
    case ind: True
    show ?thesis
    proof (cases "sint (num_formats w) < 1")
      case True
      with nz assms ind show ?thesis
        by (simp add: saveProgramBinary_def glGetProgramiv_None check_unsupported)
    next
      case False
      with nz assms ind show ?thesis
        by (cases "glGetProgramBinary_loaded w")
           (simp_all add: saveProgramBinary_def glGetProgramiv_None check_supported check_no_pointer
              cout_def)
    qed
  qed
qed

text \<open>
  A true result pins down the whole run: every test passed, and the world left behind is
  \<open>saved_world\<close>. Each test in turn is shown to have passed, since its failure
  would have returned false (or nothing).
\<close>

lemma save_True_D:
  assumes "saveProgramBinary program f w = Some (True, w1)"
  shows "\<exists>obj. program \<noteq> 0 \<and> programs w program = Some obj \<and> link_status obj = GL_TRUE
     \<and> 1 \<le> sint (num_formats w) \<and> glGetProgramBinary_loaded w
     \<and> 0 < sint (binary_length obj) \<and> length (binary obj) \<le> nat (sint (binary_length obj))
     \<and> binary obj \<noteq> [] \<and> gl_error w = GL_NO_ERROR \<and> can_open_write w f
     \<and> (case write_limit w f of None \<Rightarrow> True | Some k \<Rightarrow> 8 + length (binary obj) \<le> k)
     \<and> w1 = saved_world obj f w"
proof (cases "program_named w program")
  case None
  with assms show ?thesis by (simp add: save_dead)
next
  case (Some obj)
  then have nz: "program \<noteq> 0" and live: "programs w program = Some obj"
    by (simp_all add: program_named_def split: if_splits)
  note ev = saveProgramBinary_def glGetProgramiv_Some eval
  have linked: "link_status obj = GL_TRUE"
  proof (rule ccontr)
    assume "\<not> ?thesis"
    with assms Some nz show False by (simp add: ev)
  qed
  have formats: "\<not> sint (num_formats w) < 1"
  proof
    assume "sint (num_formats w) < 1"
    with assms Some nz linked show False by (simp add: ev check_unsupported)
  qed
  have loaded: "glGetProgramBinary_loaded w"
  proof (rule ccontr)
    assume "\<not> ?thesis"
    with assms Some nz linked formats show False
      by (cases "sint (binary_length obj) \<le> 0") (simp_all add: ev check_no_pointer)
  qed
  have len: "\<not> sint (binary_length obj) \<le> 0"
  proof
    assume "sint (binary_length obj) \<le> 0"
    with assms Some nz linked formats loaded show False by (simp add: ev check_supported)
  qed
  note pre = Some nz linked formats len loaded
  have fits: "\<not> nat (sint (binary_length obj)) < length (binary obj)"
  proof
    assume "nat (sint (binary_length obj)) < length (binary obj)"
    with assms pre show False
      by (simp add: ev check_supported glGetProgramBinary_too_small)
  qed
  then have "length (binary obj) \<le> nat (sint (binary_length obj))" by simp
  then have al: "sint (of_nat (length (binary obj)) :: 32 word) = int (length (binary obj))"
    by (rule sint_of_nat_small)
  have clean: "gl_error w = GL_NO_ERROR"
  proof (rule ccontr)
    assume "\<not> ?thesis"
    with assms pre fits show False
      by (simp add: ev check_supported glGetProgramBinary_fits)
  qed
  note ev2 = ev check_supported glGetProgramBinary_fits
  have nonzero: "of_nat (length (binary obj)) \<noteq> (0 :: 32 word)"
  proof
    assume "of_nat (length (binary obj)) = (0 :: 32 word)"
    with assms pre fits clean show False
      by (cases "(0 :: 32 word) = binary_length obj") (simp_all add: ev2)
  qed
  then have nonempty: "binary obj \<noteq> []" by auto
  have writable: "can_open_write w f"
  proof (rule ccontr)
    assume "\<not> ?thesis"
    with assms pre fits clean nonzero show False
      by (cases "of_nat (length (binary obj)) = binary_length obj")
         (simp_all add: ev2 ofstream_open_fail)
  qed
  note ev3 = ev2 ofstream_open_ok ofstream_write_fits ofstream_write_cut ofstream_write_bad
  have limit: "case write_limit w f of None \<Rightarrow> True | Some k \<Rightarrow> 8 + length (binary obj) \<le> k"
  proof (cases "write_limit w f")
    case None
    then show ?thesis by simp
  next
    case (Some k)
    have "8 + length (binary obj) \<le> k"
    proof (rule ccontr)
      assume "\<not> ?thesis"
      then consider "k < 4" | "4 \<le> k" "k < 8" | "8 \<le> k" "k < 8 + length (binary obj)"
        by linarith
      then show False
      proof cases
        case 1
        with assms pre fits clean nonzero writable Some al show False
          by (cases "of_nat (length (binary obj)) = binary_length obj") (simp_all add: ev3)
      next
        case 2
        with assms pre fits clean nonzero writable Some al show False
          by (cases "of_nat (length (binary obj)) = binary_length obj") (simp_all add: ev3)
      next
        case 3
        with assms pre fits clean nonzero writable Some al show False
          by (cases "of_nat (length (binary obj)) = binary_length obj") (simp_all add: ev3)
      qed
    qed
    with Some show ?thesis by simp
  qed
  have "w1 = saved_world obj f w"
    using assms pre fits clean nonzero writable limit al
    by (cases "of_nat (length (binary obj)) = binary_length obj")
       (simp_all add: ev3 saved_world_def split: option.splits)
  with live pre fits clean nonempty writable limit show ?thesis by simp
qed


text \<open>
  The state the probe lets through with a warning, a format count of at least 1 and no
  \<open>glGetProgramBinary\<close> pointer, ends a save of a linked program with a positive
  binary length in the call through the null pointer: the function does not return.
\<close>

lemma save_null_pointer:
  assumes "program \<noteq> 0" "programs w program = Some obj" "link_status obj = GL_TRUE"
    "1 \<le> sint (num_formats w)" "\<not> glGetProgramBinary_loaded w"
    "0 < sint (binary_length obj)"
  shows "saveProgramBinary program f w = None"
proof -
  have named: "program_named w program = Some obj"
    using assms(1,2) by (simp add: program_named_def)
  from assms named show ?thesis
    by (simp add: saveProgramBinary_def glGetProgramiv_Some check_no_pointer eval)
qed

subsection \<open>loadProgramBinary: reading the file\<close>

lemma le_word_le_bytes [simp]: "le_word (le_bytes x) = x"
  unfolding le_word_def le_bytes_def
  apply simp
  apply (rule bit_word_eqI)
  subgoal for n
    apply (cases "n < 8"; cases "n < 16"; cases "n < 24")
    apply (auto simp: bit_simps)
    done
  done

lemma store4_full [simp]: "length got = 4 \<Longrightarrow> store4 got cur = le_word got"
  by (simp add: store4_def)

lemma check_true:
  assumes "\<not> sint (num_formats w) < 1"
  shows "\<exists>l. checkProgramBinarySupport w = (True, cout l w)"
  using assms by (auto simp: checkProgramBinarySupport_def)

lemma load_unsupported:
  assumes "sint (num_formats w) < 1"
  shows "loadProgramBinary f w = Some (0, cout [Str ''Program binary not supported, cannot load'']
            (cout [Str ''Driver reports no program binary formats supported''] w))"
  using assms by (simp add: loadProgramBinary_def check_unsupported)

lemma load_zero_length:
  assumes "\<not> sint (num_formats w) < 1" "files w f = Some content" "8 \<le> length content"
    "sint (le_word (take 4 (drop 4 content))) \<le> 0"
  shows "loadProgramBinary f w = Some (0,
           cout [Str ''Invalid binary length in file: '', Num (sint (le_word (take 4 (drop 4 content))))]
             (log_io (Read_in f 4) (log_io (Read_in f 4) (log_io (Open_in f)
                (snd (checkProgramBinarySupport w))))))"
proof -
  obtain l where c: "checkProgramBinarySupport w = (True, cout l w)"
    using check_true [OF assms(1)] by blast
  show ?thesis
    using assms(2-)
    by (simp add: loadProgramBinary_def c cout_def log_io_def istream_read_def Let_def)
qed

lemma load_truncated:
  assumes "\<not> sint (num_formats w) < 1" "files w f = Some content" "8 \<le> length content"
    "0 < sint (le_word (take 4 (drop 4 content)))"
    "length content - 8 < nat (sint (le_word (take 4 (drop 4 content))))"
    "can_allocate w (nat (sint (le_word (take 4 (drop 4 content)))))"
  shows "loadProgramBinary f w = Some (0,
           cout [Str ''File read incomplete. Expected: '', Num (sint (le_word (take 4 (drop 4 content)))),
                 Str '', Actual: '', Num (int (length content - 8))]
             (log_io (Read_in f (nat (sint (le_word (take 4 (drop 4 content))))))
               (log_io (Read_in f 4) (log_io (Read_in f 4) (log_io (Open_in f)
                  (snd (checkProgramBinarySupport w)))))))"
proof -
  obtain l where c: "checkProgramBinarySupport w = (True, cout l w)"
    using check_true [OF assms(1)] by blast
  define n where "n = nat (sint (le_word (take 4 (drop 4 content))))"
  have n: "sint (le_word (take 4 (drop 4 content))) = int n" "0 < n" "length content - 8 < n"
    using assms(4,5) by (simp_all add: n_def)
  have m: "min (length content - 8) n = length content - 8" "length content - 8 \<noteq> n"
    using n by simp_all
  have a: "can_allocate w n"
    using assms(6) by (simp add: n_def)
  show ?thesis
    using assms(2,3) n(2,3) m a
    by (simp add: loadProgramBinary_def c cout_def log_io_def istream_read_def Let_def n(1))
qed

text \<open>The same file when the buffer cannot be had: the function does not return.\<close>

lemma load_bad_alloc:
  assumes "\<not> sint (num_formats w) < 1" "files w f = Some content" "8 \<le> length content"
    "0 < sint (le_word (take 4 (drop 4 content)))"
    "length content - 8 < nat (sint (le_word (take 4 (drop 4 content))))"
    "\<not> can_allocate w (nat (sint (le_word (take 4 (drop 4 content)))))"
  shows "loadProgramBinary f w = None"
proof -
  obtain l where c: "checkProgramBinarySupport w = (True, cout l w)"
    using check_true [OF assms(1)] by blast
  define n where "n = nat (sint (le_word (take 4 (drop 4 content))))"
  have n: "sint (le_word (take 4 (drop 4 content))) = int n" "0 < n" "length content - 8 < n"
    using assms(4,5) by (simp_all add: n_def)
  have a: "\<not> can_allocate w n"
    using assms(6) by (simp add: n_def)
  show ?thesis
    using assms(2,3) n(2,3) a
    by (simp add: loadProgramBinary_def c cout_def log_io_def istream_read_def Let_def n(1))
qed



subsection \<open>loadProgramBinary: submitting the binary\<close>



lemma glCreateProgram_fresh:
  "new_names w = n # ns \<Longrightarrow> n \<noteq> 0 \<Longrightarrow> glCreateProgram w =
     (n, w\<lparr>new_names := ns, programs := (programs w)(n \<mapsto>
              \<lparr>attached = [], link_status = GL_FALSE, info_log = [],
               binary_length = 0, binary_format = 0, binary = []\<rparr>)\<rparr>)"
  by (simp add: glCreateProgram_def fresh_name_def)


lemma glProgramBinary_Some:
  "program_named w p = Some obj \<Longrightarrow> loader w fmt blob = (e, st, lg, bl, bf, bs) \<Longrightarrow>
   glProgramBinary p fmt blob w =
     raise_error e (w\<lparr>programs := (programs w)(p \<mapsto>
        obj\<lparr>link_status := st, info_log := lg, binary_length := bl,
            binary_format := bf, binary := bs\<rparr>)\<rparr>)"
  by (simp add: glProgramBinary_def)

lemma glGetError_raise_error:
  "glGetError (raise_error e w) =
     ((if gl_error w = GL_NO_ERROR then e else gl_error w), w\<lparr>gl_error := GL_NO_ERROR\<rparr>)"
  by (simp add: glGetError_def raise_error_def)

lemma glDeleteProgram_zero [simp]: "glDeleteProgram 0 w = w"
  by (simp add: glDeleteProgram_def)

lemma programs_glDeleteProgram:
  "programs (glDeleteProgram p w) = (if p = 0 then programs w else (programs w)(p := None))"
  by (auto simp: glDeleteProgram_def program_named_def fun_eq_iff split: option.splits)

lemma program_named_glDeleteProgram [simp]:
  "program_named (glDeleteProgram p w) q = (if q = p then None else program_named w q)"
  by (simp add: program_named_def programs_glDeleteProgram)

lemma glDeleteProgram_fields [simp]:
  "files (glDeleteProgram p w) = files w" "io (glDeleteProgram p w) = io w"
  "new_names (glDeleteProgram p w) = new_names w" "out (glDeleteProgram p w) = out w"
  by (simp_all add: glDeleteProgram_def split: option.splits)

lemma glGetProgramInfoLog_fields [simp]:
  "files (snd (glGetProgramInfoLog p cur w)) = files w"
  "io (snd (glGetProgramInfoLog p cur w)) = io w"
  "programs (snd (glGetProgramInfoLog p cur w)) = programs w"
  "new_names (snd (glGetProgramInfoLog p cur w)) = new_names w"
  by (simp_all add: glGetProgramInfoLog_def split: option.splits)

lemma program_named_programs_update [simp]:
  "program_named (w\<lparr>programs := m\<rparr>) p = (if p = 0 then None else m p)"
  by (simp add: program_named_def)





subsection \<open>The runs that succeed\<close>

lemma save_success_run:
  assumes "program \<noteq> 0" "programs w program = Some obj" "link_status obj = GL_TRUE"
    "1 \<le> sint (num_formats w)" "glGetProgramBinary_loaded w"
    "0 < sint (binary_length obj)" "length (binary obj) \<le> nat (sint (binary_length obj))"
    "binary obj \<noteq> []" "gl_error w = GL_NO_ERROR" "can_open_write w f"
    "case write_limit w f of None \<Rightarrow> True | Some k \<Rightarrow> 8 + length (binary obj) \<le> k"
  shows "saveProgramBinary program f w = Some (True, saved_world obj f w)"
proof -
  have named: "program_named w program = Some obj"
    using assms(1,2) by (simp add: program_named_def)
  have al: "sint (of_nat (length (binary obj)) :: 32 word) = int (length (binary obj))"
    using assms(7) by (rule sint_of_nat_small)
  have nonzero: "of_nat (length (binary obj)) \<noteq> (0 :: 32 word)"
  proof
    assume "of_nat (length (binary obj)) = (0 :: 32 word)"
    then have "sint (of_nat (length (binary obj)) :: 32 word) = 0" by simp
    with al assms(8) show False by simp
  qed
  have formats: "\<not> sint (num_formats w) < 1" "\<not> sint (binary_length obj) \<le> 0"
    "\<not> nat (sint (binary_length obj)) < length (binary obj)"
    using assms(4,6,7) by simp_all
  show ?thesis
    using assms(1,3,5,9,10,11) named al nonzero formats
    by (cases "of_nat (length (binary obj)) = binary_length obj")
       (simp_all add: saveProgramBinary_def glGetProgramiv_Some eval check_supported
          glGetProgramBinary_fits ofstream_open_ok ofstream_write_fits saved_world_def
          split: option.splits)
qed

lemma load_complete:
  assumes "\<not> sint (num_formats w) < 1" "files w f = Some content" "8 \<le> length content"
    "0 < sint (le_word (take 4 (drop 4 content)))"
    "nat (sint (le_word (take 4 (drop 4 content)))) \<le> length content - 8"
  shows "loadProgramBinary f w =
           loadProgramBinary_submit f (le_word (take 4 content))
             (take (nat (sint (le_word (take 4 (drop 4 content))))) (drop 8 content))
             (log_io (Read_in f (nat (sint (le_word (take 4 (drop 4 content))))))
               (log_io (Read_in f 4) (log_io (Read_in f 4) (log_io (Open_in f)
                  (snd (checkProgramBinarySupport w))))))"
proof -
  obtain l where c: "checkProgramBinarySupport w = (True, cout l w)"
    using check_true [OF assms(1)] by blast
  define n where "n = nat (sint (le_word (take 4 (drop 4 content))))"
  have n: "sint (le_word (take 4 (drop 4 content))) = int n" "0 < n" "n \<le> length content - 8"
    using assms(4,5) by (simp_all add: n_def)
  have m: "min (length content - 8) n = n"
    using n by simp
  show ?thesis
    using assms(2,3) n(2,3) m
    by (simp add: loadProgramBinary_def c cout_def log_io_def istream_read_def Let_def n(1))
qed

lemma submit_accept:
  assumes "glProgramBinary_loaded w" "new_names w = n # ns" "n \<noteq> 0"
    "gl_error w = GL_NO_ERROR"
    "loader w fmt blob = (GL_NO_ERROR, st, lg, bl, bf, bs)" "st \<noteq> GL_FALSE"
  shows "loadProgramBinary_submit f fmt blob w =
           Some (n, w\<lparr>new_names := ns,
                     programs := (programs w)(n \<mapsto>
                       \<lparr>attached = [], link_status = st, info_log = lg,
                        binary_length = bl, binary_format = bf, binary = bs\<rparr>),
                     gl_error := GL_NO_ERROR,
                     out := out w @ [[Str ''Program binary loaded successfully: '', Str f]]\<rparr>)"
  using assms
  by (simp add: loadProgramBinary_submit_def glGetError_raise_error cout_def Let_def
        glCreateProgram_fresh glProgramBinary_Some glGetProgramiv_Some)

lemma submit_reject:
  assumes "glProgramBinary_loaded w" "new_names w = n # ns" "n \<noteq> 0"
    "gl_error w = GL_NO_ERROR"
    "loader w fmt blob = (GL_NO_ERROR, GL_FALSE, lg, bl, bf, bs)"
  shows "\<exists>w'. loadProgramBinary_submit f fmt blob w = Some (0, w')
            \<and> programs w' = (programs w)(n := None) \<and> new_names w' = ns"
  using assms
  by (cases "0 < sint (info_log_length \<lparr>attached = [], link_status = GL_FALSE, info_log = lg,
               binary_length = bl, binary_format = bf, binary = bs\<rparr>)")
     (simp_all add: loadProgramBinary_submit_def glGetError_raise_error cout_def Let_def
        glCreateProgram_fresh glProgramBinary_Some glGetProgramiv_Some split_def
        programs_glDeleteProgram)

subsection \<open>loadProgramBinary: after the program object is created\<close>









subsection \<open>What the calls leave alone\<close>

text \<open>The file system and the program objects, call by call.\<close>

lemma cout_fields [simp]:
  "files (cout l w) = files w" "io (cout l w) = io w" "programs (cout l w) = programs w"
  "program_named (cout l w) = program_named w" "binarySupported (cout l w) = binarySupported w"
  "shaders (cout l w) = shaders w" "new_names (cout l w) = new_names w"
  by (simp_all add: cout_def)

lemma glGetProgramiv_fields [simp]:
  "files (snd (glGetProgramiv p pname cur w)) = files w"
  "io (snd (glGetProgramiv p pname cur w)) = io w"
  "programs (snd (glGetProgramiv p pname cur w)) = programs w"
  "program_named (snd (glGetProgramiv p pname cur w)) = program_named w"
  "binarySupported (snd (glGetProgramiv p pname cur w)) = binarySupported w"
  by (simp_all add: glGetProgramiv_def split: option.splits)

lemma checkProgramBinarySupport_fields [simp]:
  "files (snd (checkProgramBinarySupport w)) = files w"
  "io (snd (checkProgramBinarySupport w)) = io w"
  "programs (snd (checkProgramBinarySupport w)) = programs w"
  "binarySupported (snd (checkProgramBinarySupport w)) = binarySupported w"
  by (simp_all add: checkProgramBinarySupport_def Let_def)

lemma glGetProgramBinary_fields [simp]:
  "files (snd (glGetProgramBinary p n cur w)) = files w"
  "io (snd (glGetProgramBinary p n cur w)) = io w"
  "programs (snd (glGetProgramBinary p n cur w)) = programs w"
  "binarySupported (snd (glGetProgramBinary p n cur w)) = binarySupported w"
  by (simp_all add: glGetProgramBinary_def split: option.splits)

lemma glGetError_fields [simp]:
  "files (snd (glGetError w)) = files w" "io (snd (glGetError w)) = io w"
  "programs (snd (glGetError w)) = programs w"
  "binarySupported (snd (glGetError w)) = binarySupported w"
  by (simp_all add: glGetError_def)

lemma ofstream_open_fields [simp]:
  "programs (snd (ofstream_open f w)) = programs w"
  "binarySupported (snd (ofstream_open f w)) = binarySupported w"
  "io (snd (ofstream_open f w)) = io w @ [Open_out f]"
  "p \<noteq> f \<Longrightarrow> files (snd (ofstream_open f w)) p = files w p"
  by (simp_all add: ofstream_open_def log_io_def Let_def)

lemma ofstream_write_fields [simp]:
  "programs (snd (ofstream_write f bs bad w)) = programs w"
  "binarySupported (snd (ofstream_write f bs bad w)) = binarySupported w"
  "io (snd (ofstream_write f bs bad w)) = io w @ [Write_out f (length bs)]"
  "p \<noteq> f \<Longrightarrow> files (snd (ofstream_write f bs bad w)) p = files w p"
  by (simp_all add: ofstream_write_def log_io_def Let_def split: option.splits)

lemma fresh_name_fields [simp]:
  "files (snd (fresh_name w)) = files w" "io (snd (fresh_name w)) = io w"
  "binarySupported (snd (fresh_name w)) = binarySupported w"
  "programs (snd (fresh_name w)) = programs w" "shaders (snd (fresh_name w)) = shaders w"
  by (simp_all add: fresh_name_def split: list.splits)

lemma glCreateShader_fields [simp]:
  "files (snd (glCreateShader ty w)) = files w" "io (snd (glCreateShader ty w)) = io w"
  "binarySupported (snd (glCreateShader ty w)) = binarySupported w"
  by (simp_all add: glCreateShader_def split_def Let_def)

lemma glCreateProgram_fields [simp]:
  "files (snd (glCreateProgram w)) = files w" "io (snd (glCreateProgram w)) = io w"
  "binarySupported (snd (glCreateProgram w)) = binarySupported w"
  by (simp_all add: glCreateProgram_def split_def Let_def)

lemma glShaderSource_fields [simp]:
  "files (glShaderSource s src w) = files w" "io (glShaderSource s src w) = io w"
  "binarySupported (glShaderSource s src w) = binarySupported w"
  by (simp_all add: glShaderSource_def split: option.splits)

lemma glCompileShader_fields [simp]:
  "files (glCompileShader s w) = files w" "io (glCompileShader s w) = io w"
  "binarySupported (glCompileShader s w) = binarySupported w"
  by (simp_all add: glCompileShader_def split: option.splits prod.splits)

lemma glGetShaderiv_fields [simp]:
  "files (snd (glGetShaderiv s pname cur w)) = files w"
  "io (snd (glGetShaderiv s pname cur w)) = io w"
  "binarySupported (snd (glGetShaderiv s pname cur w)) = binarySupported w"
  by (simp_all add: glGetShaderiv_def split: option.splits)

lemma glGetShaderInfoLog_fields [simp]:
  "files (snd (glGetShaderInfoLog s n cur w)) = files w"
  "io (snd (glGetShaderInfoLog s n cur w)) = io w"
  "binarySupported (snd (glGetShaderInfoLog s n cur w)) = binarySupported w"
  by (simp_all add: glGetShaderInfoLog_def split: option.splits)

lemma glGetProgramInfoLogN_fields [simp]:
  "files (snd (glGetProgramInfoLogN p n cur w)) = files w"
  "io (snd (glGetProgramInfoLogN p n cur w)) = io w"
  "binarySupported (snd (glGetProgramInfoLogN p n cur w)) = binarySupported w"
  by (simp_all add: glGetProgramInfoLogN_def split: option.splits)

lemma glDeleteShader_fields [simp]:
  "files (glDeleteShader s w) = files w" "io (glDeleteShader s w) = io w"
  "binarySupported (glDeleteShader s w) = binarySupported w"
  "programs (glDeleteShader s w) = programs w"
  by (simp_all add: glDeleteShader_def split: option.splits)

lemma glAttachShader_fields [simp]:
  "files (glAttachShader p s w) = files w" "io (glAttachShader p s w) = io w"
  "binarySupported (glAttachShader p s w) = binarySupported w"
  by (simp_all add: glAttachShader_def split: option.splits)

lemma glLinkProgram_fields [simp]:
  "files (glLinkProgram p w) = files w" "io (glLinkProgram p w) = io w"
  "binarySupported (glLinkProgram p w) = binarySupported w"
  by (simp_all add: glLinkProgram_def split: option.splits prod.splits)

lemma glDeleteProgram_binarySupported [simp]:
  "binarySupported (glDeleteProgram p w) = binarySupported w"
  by (simp add: glDeleteProgram_def split: option.splits)

subsection \<open>Postconditions on every path\<close>

text \<open>
  Rules that carry a postcondition through the lets, ifs and cases of a definition, so
  that a property of every path is proved without unfolding the calls.
\<close>

lemma ends_in_Pair: "I w' \<Longrightarrow> ends_in I (a, w')"
  by (simp add: ends_in_def)

lemma ends_in_if:
  "(c \<Longrightarrow> ends_in I x) \<Longrightarrow> (\<not> c \<Longrightarrow> ends_in I y) \<Longrightarrow> ends_in I (if c then x else y)"
  by simp

lemma ends_in_case_prod:
  "ends_in I p \<Longrightarrow> (\<And>a w1. I w1 \<Longrightarrow> ends_in I (q a w1)) \<Longrightarrow>
   ends_in I (case p of (a, w1) \<Rightarrow> q a w1)"
  by (cases p) (simp add: ends_in_def)

lemma may_end_in_None: "may_end_in I None"
  by (simp add: may_end_in_def)

lemma may_end_in_Some: "I w' \<Longrightarrow> may_end_in I (Some (a, w'))"
  by (simp add: may_end_in_def)

lemma may_end_in_if:
  "(c \<Longrightarrow> may_end_in I x) \<Longrightarrow> (\<not> c \<Longrightarrow> may_end_in I y) \<Longrightarrow> may_end_in I (if c then x else y)"
  by simp

lemma may_end_in_case_prod:
  "ends_in I p \<Longrightarrow> (\<And>a w1. I w1 \<Longrightarrow> may_end_in I (q a w1)) \<Longrightarrow>
   may_end_in I (case p of (a, w1) \<Rightarrow> q a w1)"
  by (cases p) (simp add: ends_in_def)

lemma may_end_in_triple_app:
  "(\<And>a b c. may_end_in I (q a b c w)) \<Longrightarrow> may_end_in I ((case x of (a, b, c) \<Rightarrow> q a b c) w)"
  by (cases x) simp

lemma may_end_in_case_option:
  "may_end_in I r \<Longrightarrow> (\<And>a w1. I w1 \<Longrightarrow> may_end_in I (q a w1)) \<Longrightarrow>
   may_end_in I (case r of None \<Rightarrow> None | Some (a, w1) \<Rightarrow> q a w1)"
  by (cases r) (auto simp: may_end_in_def)

lemmas vcg = may_end_in_triple_app ends_in_Pair ends_in_if ends_in_case_prod may_end_in_None
  may_end_in_Some may_end_in_if may_end_in_case_prod may_end_in_case_option

lemma touches_only_refl [simp]: "touches_only f w w"
  by (simp add: touches_only_def)


lemma touches_only_cout [simp]: "touches_only f w (cout l w1) = touches_only f w w1"
  by (simp add: touches_only_def)

lemma compile_frame:
  "ends_in (\<lambda>w'. files w' = files w \<and> io w' = io w \<and> binarySupported w' = binarySupported w)
     (createShaderProgramFromSource w)"
  unfolding createShaderProgramFromSource_def Let_def
  apply (intro vcg)
  apply (simp_all add: ends_in_def)
  done

lemma compile_fields [simp]:
  "files (snd (createShaderProgramFromSource w)) = files w"
  "io (snd (createShaderProgramFromSource w)) = io w"
  "binarySupported (snd (createShaderProgramFromSource w)) = binarySupported w"
  using compile_frame [of w] by (simp_all add: ends_in_def)

lemma save_frame:
  "may_end_in (\<lambda>w'. programs w' = programs w \<and> binarySupported w' = binarySupported w
          \<and> (\<forall>p. p \<noteq> f \<longrightarrow> files w' p = files w p)
          \<and> (\<exists>es. io w' = io w @ es \<and> (\<forall>e \<in> set es. event_path e = f)))
     (saveProgramBinary program f w)"
  unfolding saveProgramBinary_def Let_def
  apply (intro vcg)
  apply (auto simp: ends_in_def)
  done

lemma save_result:
  assumes "saveProgramBinary program f w = Some (b, w')"
  shows "programs w' = programs w" "binarySupported w' = binarySupported w"
    "touches_only f w w'"
  using save_frame [of w f program] assms
  by (simp_all add: may_end_in_def touches_only_def)


lemma init_binarySupported_fields [simp]:
  "files (snd (init_binarySupported w)) = files w"
  "io (snd (init_binarySupported w)) = io w"
  "programs (snd (init_binarySupported w)) = programs w"
  by (simp_all add: init_binarySupported_def split_def Let_def split: option.splits)

subsection \<open>A compiled program is a linked program object\<close>

lemma glCreateProgram_live:
  "glCreateProgram w = (p, w1) \<Longrightarrow> p \<noteq> 0 \<Longrightarrow> program_named w1 p \<noteq> None"
  by (auto simp: glCreateProgram_def fresh_name_def program_named_def split: list.splits if_splits)

lemma program_named_glAttachShader [simp]:
  "program_named (glAttachShader p s w) q = None \<longleftrightarrow> program_named w q = None"
  by (auto simp: glAttachShader_def program_named_def split: option.splits if_splits)

lemma program_named_glLinkProgram [simp]:
  "program_named (glLinkProgram p w) q = None \<longleftrightarrow> program_named w q = None"
  by (auto simp: glLinkProgram_def program_named_def split: option.splits if_splits prod.splits)

lemma program_named_glDeleteShader [simp]:
  "program_named (glDeleteShader s w) = program_named w"
  by (simp add: program_named_def fun_eq_iff)

lemma glGetProgramiv_live:
  "glGetProgramiv p pname cur w = (a, w1) \<Longrightarrow> program_named w p \<noteq> None \<Longrightarrow>
   w1 = w \<and> (\<exists>obj. programs w p = Some obj \<and> a = pname obj)"
  by (auto simp: glGetProgramiv_def program_named_def split: option.splits if_splits)

lemma compile_live:
  assumes "createShaderProgramFromSource w = (p, w')" and "p \<noteq> 0"
  shows "\<exists>obj. programs w' p = Some obj \<and> link_status obj \<noteq> GL_FALSE"
proof -
  from assms obtain w9 w10 cur vs fs w14 s3 where
      c: "glCreateProgram w9 = (p, w10)"
    and g: "glGetProgramiv p link_status cur
              (glLinkProgram p (glAttachShader p fs (glAttachShader p vs w10))) = (s3, w14)"
    and s3: "s3 \<noteq> 0"
    and w': "w' = cout [Str ''Shader program compiled and linked successfully from source'']
               (glDeleteShader fs (glDeleteShader vs w14))"
    unfolding createShaderProgramFromSource_def Let_def
    by (auto split: prod.splits if_splits)
  from c assms(2) have "program_named w10 p \<noteq> None"
    by (rule glCreateProgram_live)
  then have "program_named (glLinkProgram p (glAttachShader p fs (glAttachShader p vs w10))) p \<noteq> None"
    by simp
  from glGetProgramiv_live [OF g this] s3 w'
  show ?thesis by (auto simp: GL_FALSE_def)
qed

subsection \<open>createOrLoadShaderProgram\<close>






lemma saved_world_load:
  assumes "program \<noteq> 0" "programs w program = Some obj"
    "1 \<le> sint (num_formats w)" "glGetProgramBinary_loaded w"
    "length (binary obj) \<le> nat (sint (binary_length obj))" "binary obj \<noteq> []"
  shows "loadProgramBinary f (saved_world obj f w) =
           loadProgramBinary_submit f (binary_format obj) (binary obj)
             ((saved_world obj f w)\<lparr>
                out := out (saved_world obj f w) @
                  [[Str ''Program binary supported. Number of formats: '', Num (sint (num_formats w))]],
                io := io (saved_world obj f w) @
                  [Open_in f, Read_in f 4, Read_in f 4, Read_in f (length (binary obj))]\<rparr>)"
proof -
  define content where "content = le_bytes (binary_format obj) @
                  le_bytes (of_nat (length (binary obj)) :: 32 word) @ binary obj"
  have al: "sint (of_nat (length (binary obj)) :: 32 word) = int (length (binary obj))"
    using assms(5) by (rule sint_of_nat_small)
  have parts: "take 4 content = le_bytes (binary_format obj)"
    "take 4 (drop 4 content) = le_bytes (of_nat (length (binary obj)) :: 32 word)"
    "drop 8 content = binary obj" "length content = 8 + length (binary obj)"
    by (simp_all add: content_def)
  have c: "checkProgramBinarySupport (saved_world obj f w) =
      (True, cout [Str ''Program binary supported. Number of formats: '', Num (sint (num_formats w))]
               (saved_world obj f w))"
    using assms(3,4) by (simp add: check_supported saved_world_def)
  have "loadProgramBinary f (saved_world obj f w) =
           loadProgramBinary_submit f (le_word (take 4 content))
             (take (nat (sint (le_word (take 4 (drop 4 content))))) (drop 8 content))
             (log_io (Read_in f (nat (sint (le_word (take 4 (drop 4 content))))))
               (log_io (Read_in f 4) (log_io (Read_in f 4) (log_io (Open_in f)
                  (snd (checkProgramBinarySupport (saved_world obj f w)))))))"
  proof (rule load_complete)
    show "\<not> sint (num_formats (saved_world obj f w)) < 1"
      using assms(3) by (simp add: saved_world_def)
    show "files (saved_world obj f w) f = Some content"
      by (simp add: saved_world_def content_def)
    show "8 \<le> length content" by (simp add: parts)
    show "0 < sint (le_word (take 4 (drop 4 content)))"
      using assms(6) by (simp add: parts al)
    show "nat (sint (le_word (take 4 (drop 4 content)))) \<le> length content - 8"
      by (simp add: parts al)
  qed
  then show ?thesis
    by (simp add: parts al c cout_def log_io_def)
qed

lemma orchestrator_miss_run:
  assumes "init_binarySupported w = (True, w1)"
    and "loadProgramBinary binaryFilename w1 = Some (0, w2)"
    and "createShaderProgramFromSource
           (cout [Str ''Binary cache not found or invalid, compiling from source...''] w2)
         = (program, w4)"
    and "program \<noteq> 0"
    and "saveProgramBinary program binaryFilename w4 = Some (saved, w5)"
  shows "createOrLoadShaderProgram w =
           Some (program,
                 cout (if saved then [Str ''Program binary cached for future use'']
                       else [Str ''Warning: Failed to save program binary, but program compiled successfully''])
                   w5)"
  using assms by (simp add: createOrLoadShaderProgram_def)

subsection \<open>A run with no writable file\<close>

lemmas concrete_defs = init_binarySupported_def
  checkProgramBinarySupport_def loadProgramBinary_def loadProgramBinary_submit_def
  saveProgramBinary_def createShaderProgramFromSource_def Let_def
  glCreateShader_def fresh_name_def glShaderSource_def glCompileShader_def glGetShaderiv_def
  shader_named_def program_named_def glCreateProgram_def glAttachShader_def glLinkProgram_def
  glGetProgramiv_def glDeleteShader_def cout_def log_io_def GL_TRUE_def GL_FALSE_def
  GL_VERTEX_SHADER_def GL_FRAGMENT_SHADER_def vertexShaderSource_def fragmentShaderSource_def
  glGetProgramBinary_def glGetError_def raise_error_def ofstream_open_def ofstream_write_def
  istream_read_def store4_def glProgramBinary_def glDeleteProgram_def glGetProgramInfoLog_def
  info_log_length_def GL_NO_ERROR_def GL_INVALID_VALUE_def GL_INVALID_OPERATION_def
  binaryFilename_def example_world_def example_program_def unwritable_world_def
  glGetShaderInfoLog_def glGetProgramInfoLogN_def

lemma unwritable_run:
  "\<exists>w1 w2 w4 w5.
      init_binarySupported unwritable_world = (True, w1)
    \<and> loadProgramBinary binaryFilename w1 = Some (0, w2)
    \<and> createShaderProgramFromSource
           (cout [Str ''Binary cache not found or invalid, compiling from source...''] w2)
         = (9, w4)
    \<and> saveProgramBinary 9 binaryFilename w4 = Some (False, w5)
    \<and> io w5 = [Open_in binaryFilename, Open_out binaryFilename]
    \<and> createOrLoadShaderProgram unwritable_world =
         Some (9, cout [Str ''Warning: Failed to save program binary, but program compiled successfully''] w5)"
proof -
  define W1 where "W1 = snd (init_binarySupported unwritable_world)"
  have h1: "init_binarySupported unwritable_world = (True, W1)"
    by (simp add: W1_def concrete_defs)
  define W2 where "W2 = snd (the (loadProgramBinary binaryFilename W1))"
  have h2: "loadProgramBinary binaryFilename W1 = Some (0, W2)"
    by (simp add: W2_def W1_def concrete_defs)
  define W4 where "W4 = snd (createShaderProgramFromSource
           (cout [Str ''Binary cache not found or invalid, compiling from source...''] W2))"
  have "fst (createShaderProgramFromSource
           (cout [Str ''Binary cache not found or invalid, compiling from source...''] W2)) = 9"
    by (simp add: W2_def W1_def concrete_defs)
  then have h3: "createShaderProgramFromSource
           (cout [Str ''Binary cache not found or invalid, compiling from source...''] W2) = (9, W4)"
    by (simp add: W4_def prod_eq_iff)
  define W5 where "W5 = snd (the (saveProgramBinary 9 binaryFilename W4))"
  have "map_option (\<lambda>r. (fst r, io (snd r))) (saveProgramBinary 9 binaryFilename W4)
          = Some (False, [Open_in binaryFilename, Open_out binaryFilename])"
    by (simp add: W4_def W2_def W1_def concrete_defs)
  then have h5: "saveProgramBinary 9 binaryFilename W4 = Some (False, W5)"
    and io5: "io W5 = [Open_in binaryFilename, Open_out binaryFilename]"
    by (auto simp: W5_def)
  from orchestrator_miss_run [OF h1 h2 h3 _ h5]
  have "createOrLoadShaderProgram unwritable_world =
         Some (9, cout [Str ''Warning: Failed to save program binary, but program compiled successfully''] W5)"
    by simp
  with h1 h2 h3 h5 io5 show ?thesis by blast
qed

section \<open>The properties\<close>

text \<open>
  C1. As stated the round trip fails: the driver may refuse the binary it has just
  handed out, and loadProgramBinary then returns 0 by its own checks. In
  \<open>rejecting_world\<close> program 1 is linked, saving it returns true, and the load that
  follows returns 0.
\<close>

theorem save_then_load_counterexample:
  "map_option link_status (programs rejecting_world 1) = Some GL_TRUE
   \<and> map_option fst (saveProgramBinary 1 binaryFilename rejecting_world) = Some True
   \<and> map_option fst (loadProgramBinary binaryFilename
         (snd (the (saveProgramBinary 1 binaryFilename rejecting_world)))) = Some 0"
proof -
  have facts: "programs rejecting_world 1 = Some example_program"
    "(1 :: GLuint) \<noteq> 0" "link_status example_program = GL_TRUE"
    "1 \<le> sint (num_formats rejecting_world)" "glGetProgramBinary_loaded rejecting_world"
    "0 < sint (binary_length example_program)"
    "length (binary example_program) \<le> nat (sint (binary_length example_program))"
    "binary example_program \<noteq> []" "gl_error rejecting_world = GL_NO_ERROR"
    "can_open_write rejecting_world binaryFilename"
    "write_limit rejecting_world binaryFilename = None"
    by (simp_all add: rejecting_world_def example_world_def example_program_def)
  have run: "saveProgramBinary 1 binaryFilename rejecting_world
     = Some (True, saved_world example_program binaryFilename rejecting_world)"
    by (rule save_success_run) (simp_all add: facts)
  define W where "W = (saved_world example_program binaryFilename rejecting_world)\<lparr>
                out := out (saved_world example_program binaryFilename rejecting_world) @
                  [[Str ''Program binary supported. Number of formats: '',
                    Num (sint (num_formats rejecting_world))]],
                io := io (saved_world example_program binaryFilename rejecting_world) @
                  [Open_in binaryFilename, Read_in binaryFilename 4, Read_in binaryFilename 4,
                   Read_in binaryFilename (length (binary example_program))]\<rparr>"
  have ld: "loadProgramBinary binaryFilename (saved_world example_program binaryFilename rejecting_world) =
           loadProgramBinary_submit binaryFilename (binary_format example_program)
             (binary example_program) W"
    unfolding W_def
    by (rule saved_world_load [where program = 1]) (simp_all add: facts)
  have "\<exists>w'. loadProgramBinary_submit binaryFilename (binary_format example_program)
             (binary example_program) W = Some (0, w')
          \<and> programs w' = (programs W)(7 := None) \<and> new_names w' = [8, 9]"
    by (rule submit_reject [where lg = "''rejected''" and bl = 0 and bf = 0 and bs = "[]"])
       (simp_all add: W_def saved_world_def rejecting_world_def example_world_def)
  with run ld facts(1,3) show ?thesis by auto
qed

text \<open>
  C1, amended. If saveProgramBinary returns true for a program, that program's link
  status is GL\_TRUE, and the loadProgramBinary that follows on the world the save left
  returns a non-zero handle, live, with link status GL\_TRUE, whenever the driver
  accepts the reload: the \<open>glProgramBinary\<close> pointer is loaded, \<open>glCreateProgram\<close>
  hands out a non-zero name, and the driver takes the saved tag and payload with no
  error and link status GL\_TRUE.
\<close>

theorem save_then_load_accepted:
  assumes "saveProgramBinary program f w = Some (True, w1)"
    and "programs w program = Some obj"
    and "glProgramBinary_loaded w"
    and "new_names w = n # ns" and "n \<noteq> 0"
    and "loader w (binary_format obj) (binary obj) = (GL_NO_ERROR, GL_TRUE, lg, bl, bf, bs)"
  shows "link_status obj = GL_TRUE
       \<and> (\<exists>w2 obj'. loadProgramBinary f w1 = Some (n, w2)
              \<and> programs w2 n = Some obj' \<and> link_status obj' = GL_TRUE)"
proof -
  from save_True_D [OF assms(1)] assms(2)
  have d: "program \<noteq> 0" "link_status obj = GL_TRUE" "1 \<le> sint (num_formats w)"
    "glGetProgramBinary_loaded w" "length (binary obj) \<le> nat (sint (binary_length obj))"
    "binary obj \<noteq> []" "w1 = saved_world obj f w"
    by auto
  have ld: "loadProgramBinary f w1 =
           loadProgramBinary_submit f (binary_format obj) (binary obj)
             ((saved_world obj f w)\<lparr>
                out := out (saved_world obj f w) @
                  [[Str ''Program binary supported. Number of formats: '', Num (sint (num_formats w))]],
                io := io (saved_world obj f w) @
                  [Open_in f, Read_in f 4, Read_in f 4, Read_in f (length (binary obj))]\<rparr>)"
    unfolding d(7) using d(1) assms(2) d(3-6) by (rule saved_world_load)
  have "loadProgramBinary_submit f (binary_format obj) (binary obj)
             ((saved_world obj f w)\<lparr>
                out := out (saved_world obj f w) @
                  [[Str ''Program binary supported. Number of formats: '', Num (sint (num_formats w))]],
                io := io (saved_world obj f w) @
                  [Open_in f, Read_in f 4, Read_in f 4, Read_in f (length (binary obj))]\<rparr>)
        = Some (n, ((saved_world obj f w)\<lparr>
                out := out (saved_world obj f w) @
                  [[Str ''Program binary supported. Number of formats: '', Num (sint (num_formats w))]],
                io := io (saved_world obj f w) @
                  [Open_in f, Read_in f 4, Read_in f 4, Read_in f (length (binary obj))]\<rparr>)
              \<lparr>new_names := ns,
               programs := (programs w)(n \<mapsto>
                       \<lparr>attached = [], link_status = GL_TRUE, info_log = lg,
                        binary_length = bl, binary_format = bf, binary = bs\<rparr>),
               gl_error := GL_NO_ERROR,
               out := out (saved_world obj f w) @
                  [[Str ''Program binary supported. Number of formats: '', Num (sint (num_formats w))],
                   [Str ''Program binary loaded successfully: '', Str f]]\<rparr>)"
    using assms(3-6)
    by (subst submit_accept [where n = n and ns = ns and st = GL_TRUE and lg = lg and bl = bl
          and bf = bf and bs = bs])
       (simp_all add: saved_world_def)
  with ld d(2) show ?thesis by simp
qed

theorem save_then_load_accepted_witness:
  "saveProgramBinary 1 binaryFilename example_world
     = Some (True, saved_world example_program binaryFilename example_world)
   \<and> programs example_world 1 = Some example_program
   \<and> glProgramBinary_loaded example_world
   \<and> new_names example_world = [7, 8, 9]
   \<and> loader example_world (binary_format example_program) (binary example_program)
       = (GL_NO_ERROR, GL_TRUE, [], 3, 0x8740, [1, 2, 3])
   \<and> (\<exists>w2 obj'. loadProgramBinary binaryFilename
                    (saved_world example_program binaryFilename example_world) = Some (7, w2)
              \<and> programs w2 7 = Some obj' \<and> link_status obj' = GL_TRUE)"
proof -
  have run: "saveProgramBinary 1 binaryFilename example_world
     = Some (True, saved_world example_program binaryFilename example_world)"
    by (rule save_success_run)
       (simp_all add: example_world_def example_program_def GL_TRUE_def GL_NO_ERROR_def)
  have facts: "programs example_world 1 = Some example_program"
    "glProgramBinary_loaded example_world" "new_names example_world = [7, 8, 9]"
    "(7 :: GLuint) \<noteq> 0"
    "loader example_world (binary_format example_program) (binary example_program)
       = (GL_NO_ERROR, GL_TRUE, [], 3, 0x8740, [1, 2, 3])"
    by (simp_all add: example_world_def example_program_def)
  from save_then_load_accepted [OF run facts(1,2,3,4,5)] run facts
  show ?thesis by simp
qed




text \<open>
  C3. With the capability flag true, the cache missed and the program compiled (a
  non-zero handle), a saveProgramBinary that returns false changes nothing in the
  result: createOrLoadShaderProgram returns that handle, after printing the warning, and
  the handle still names the linked object the compilation produced.
\<close>

theorem createOrLoadShaderProgram_best_effort:
  assumes "init_binarySupported w = (True, w1)"
    and "loadProgramBinary binaryFilename w1 = Some (0, w2)"
    and "createShaderProgramFromSource
           (cout [Str ''Binary cache not found or invalid, compiling from source...''] w2)
         = (program, w4)"
    and "program \<noteq> 0"
    and "saveProgramBinary program binaryFilename w4 = Some (False, w5)"
  shows "\<exists>w' obj. createOrLoadShaderProgram w = Some (program, w')
           \<and> w' = cout [Str ''Warning: Failed to save program binary, but program compiled successfully''] w5
           \<and> programs w' program = Some obj \<and> programs w4 program = Some obj
           \<and> link_status obj \<noteq> GL_FALSE"
proof -
  from compile_live [OF assms(3,4)] obtain obj
    where o: "programs w4 program = Some obj" "link_status obj \<noteq> GL_FALSE"
    by blast
  have "programs w5 = programs w4"
    using assms(5) by (rule save_result(1))
  with o orchestrator_miss_run [OF assms] show ?thesis
    by simp
qed

theorem createOrLoadShaderProgram_best_effort_witness:
  "\<exists>w1 w2 w4 w5 obj.
      init_binarySupported unwritable_world = (True, w1)
    \<and> loadProgramBinary binaryFilename w1 = Some (0, w2)
    \<and> createShaderProgramFromSource
           (cout [Str ''Binary cache not found or invalid, compiling from source...''] w2)
         = (9, w4)
    \<and> saveProgramBinary 9 binaryFilename w4 = Some (False, w5)
    \<and> createOrLoadShaderProgram unwritable_world =
         Some (9, cout [Str ''Warning: Failed to save program binary, but program compiled successfully''] w5)
    \<and> programs w5 9 = Some obj \<and> link_status obj \<noteq> GL_FALSE"
proof -
  from unwritable_run obtain w1 w2 w4 w5 where
      h: "init_binarySupported unwritable_world = (True, w1)"
      "loadProgramBinary binaryFilename w1 = Some (0, w2)"
      "createShaderProgramFromSource
           (cout [Str ''Binary cache not found or invalid, compiling from source...''] w2)
         = (9, w4)"
      "saveProgramBinary 9 binaryFilename w4 = Some (False, w5)"
    by blast
  from createOrLoadShaderProgram_best_effort [OF h(1,2,3) _ h(4)] h
  show ?thesis by auto
qed

text \<open>
  C4. When the capability flag is false (already memoised false, or not yet set with a
  driver that reports fewer than one format), createOrLoadShaderProgram goes straight to
  createShaderProgramFromSource: its result is that call's result, the world is the one
  that call leaves (plus the failure line when it returned 0), and no stream call is
  made and no file changed.
\<close>

theorem createOrLoadShaderProgram_unsupported:
  assumes "binarySupported w = Some False \<or> (binarySupported w = None \<and> sint (num_formats w) < 1)"
  shows "\<exists>w1 program w4.
      init_binarySupported w = (False, w1)
    \<and> createShaderProgramFromSource
         (cout [Str ''Program binary not supported, compiling from source...''] w1) = (program, w4)
    \<and> createOrLoadShaderProgram w =
         Some (program, if program = 0
                        then cout [Str ''Failed to compile shader program from source''] w4
                        else w4)
    \<and> io w4 = io w \<and> files w4 = files w
    \<and> out w1 = out w @ (if binarySupported w = None
                         then [[Str ''Driver reports no program binary formats supported'']]
                         else [])"
proof -
  obtain w1 where i: "init_binarySupported w = (False, w1)"
    and o: "out w1 = out w @ (if binarySupported w = None
                         then [[Str ''Driver reports no program binary formats supported'']]
                         else [])"
    using assms by (auto simp: init_binarySupported_def check_unsupported cout_def)
  obtain program w4 where c: "createShaderProgramFromSource
         (cout [Str ''Program binary not supported, compiling from source...''] w1) = (program, w4)"
    by (cases "createShaderProgramFromSource
         (cout [Str ''Program binary not supported, compiling from source...''] w1)") auto
  have w1: "io w1 = io w" "files w1 = files w"
    using init_binarySupported_fields(1,2) [of w] i by simp_all
  have w4: "io w4 = io w" "files w4 = files w"
    using compile_fields(1,2) [of "cout [Str ''Program binary not supported, compiling from source...''] w1"]
      c w1 by simp_all
  have "createOrLoadShaderProgram w =
         Some (program, if program = 0
                        then cout [Str ''Failed to compile shader program from source''] w4
                        else w4)"
    using i c by (simp add: createOrLoadShaderProgram_def)
  with i c w4 o show ?thesis by blast
qed

theorem createOrLoadShaderProgram_unsupported_witness:
  "binarySupported (example_world\<lparr>num_formats := 0\<rparr>) = None
   \<and> sint (num_formats (example_world\<lparr>num_formats := 0\<rparr>)) < 1
   \<and> (\<exists>w1 program w4.
        init_binarySupported (example_world\<lparr>num_formats := 0\<rparr>) = (False, w1)
      \<and> createShaderProgramFromSource
           (cout [Str ''Program binary not supported, compiling from source...''] w1) = (program, w4)
      \<and> createOrLoadShaderProgram (example_world\<lparr>num_formats := 0\<rparr>) =
           Some (program, if program = 0
                          then cout [Str ''Failed to compile shader program from source''] w4
                          else w4)
      \<and> io w4 = [] \<and> files w4 = Map.empty)
   \<and> binarySupported (example_world\<lparr>binarySupported := Some False\<rparr>) = Some False
   \<and> (\<exists>program w4.
        createShaderProgramFromSource
           (cout [Str ''Program binary not supported, compiling from source...'']
              (example_world\<lparr>binarySupported := Some False\<rparr>)) = (program, w4)
      \<and> createOrLoadShaderProgram (example_world\<lparr>binarySupported := Some False\<rparr>) =
           Some (program, if program = 0
                          then cout [Str ''Failed to compile shader program from source''] w4
                          else w4)
      \<and> io w4 = [] \<and> files w4 = Map.empty)"
proof -
  have h: "binarySupported (example_world\<lparr>num_formats := 0\<rparr>) = None"
    "sint (num_formats (example_world\<lparr>num_formats := 0\<rparr>)) < 1"
    "io (example_world\<lparr>num_formats := 0\<rparr>) = []"
    "files (example_world\<lparr>num_formats := 0\<rparr>) = Map.empty"
    by (simp_all add: example_world_def)
  have k: "binarySupported (example_world\<lparr>binarySupported := Some False\<rparr>) = Some False"
    "io (example_world\<lparr>binarySupported := Some False\<rparr>) = []"
    "files (example_world\<lparr>binarySupported := Some False\<rparr>) = Map.empty"
    "init_binarySupported (example_world\<lparr>binarySupported := Some False\<rparr>)
       = (False, example_world\<lparr>binarySupported := Some False\<rparr>)"
    by (simp_all add: example_world_def init_binarySupported_def)
  from createOrLoadShaderProgram_unsupported [of "example_world\<lparr>num_formats := 0\<rparr>"] h
  have first: "\<exists>w1 program w4.
        init_binarySupported (example_world\<lparr>num_formats := 0\<rparr>) = (False, w1)
      \<and> createShaderProgramFromSource
           (cout [Str ''Program binary not supported, compiling from source...''] w1) = (program, w4)
      \<and> createOrLoadShaderProgram (example_world\<lparr>num_formats := 0\<rparr>) =
           Some (program, if program = 0
                          then cout [Str ''Failed to compile shader program from source''] w4
                          else w4)
      \<and> io w4 = [] \<and> files w4 = Map.empty"
    by auto
  from createOrLoadShaderProgram_unsupported [of "example_world\<lparr>binarySupported := Some False\<rparr>"] k
  have second: "\<exists>program w4.
        createShaderProgramFromSource
           (cout [Str ''Program binary not supported, compiling from source...'']
              (example_world\<lparr>binarySupported := Some False\<rparr>)) = (program, w4)
      \<and> createOrLoadShaderProgram (example_world\<lparr>binarySupported := Some False\<rparr>) =
           Some (program, if program = 0
                          then cout [Str ''Failed to compile shader program from source''] w4
                          else w4)
      \<and> io w4 = [] \<and> files w4 = Map.empty"
    by auto
  from h(1,2) k(1) first second show ?thesis by blast
qed

text \<open>
  C5. The probe answers false exactly when the driver's format count, read as a signed
  integer, is below 1. With a count of at least 1 and no \<open>glGetProgramBinary\<close> pointer it
  still answers true, and prints a line of its own, different from the line of the
  unsupported case and from the line of the supported case.
\<close>

theorem checkProgramBinarySupport_asymmetry:
  "(fst (checkProgramBinarySupport w) = False \<longleftrightarrow> sint (num_formats w) < 1)
   \<and> (sint (num_formats w) < 1 \<longrightarrow>
        checkProgramBinarySupport w =
          (False, cout [Str ''Driver reports no program binary formats supported''] w))
   \<and> (1 \<le> sint (num_formats w) \<and> \<not> glGetProgramBinary_loaded w \<longrightarrow>
        checkProgramBinarySupport w =
          (True, cout [Str ''glGetProgramBinary function not available''] w))
   \<and> (1 \<le> sint (num_formats w) \<and> glGetProgramBinary_loaded w \<longrightarrow>
        checkProgramBinarySupport w =
          (True, cout [Str ''Program binary supported. Number of formats: '',
                       Num (sint (num_formats w))] w))
   \<and> [Str ''glGetProgramBinary function not available''] \<noteq>
        [Str ''Driver reports no program binary formats supported'']
   \<and> [Str ''glGetProgramBinary function not available''] \<noteq>
        [Str ''Program binary supported. Number of formats: '', Num (sint (num_formats w))]"
  by (simp add: checkProgramBinarySupport_def Let_def)

theorem checkProgramBinarySupport_asymmetry_witness:
  "1 \<le> sint (num_formats (example_world\<lparr>glGetProgramBinary_loaded := False\<rparr>))
   \<and> \<not> glGetProgramBinary_loaded (example_world\<lparr>glGetProgramBinary_loaded := False\<rparr>)
   \<and> checkProgramBinarySupport (example_world\<lparr>glGetProgramBinary_loaded := False\<rparr>) =
        (True, cout [Str ''glGetProgramBinary function not available'']
                 (example_world\<lparr>glGetProgramBinary_loaded := False\<rparr>))
   \<and> sint (num_formats (example_world\<lparr>num_formats := 0\<rparr>)) < 1
   \<and> checkProgramBinarySupport (example_world\<lparr>num_formats := 0\<rparr>) =
        (False, cout [Str ''Driver reports no program binary formats supported'']
                  (example_world\<lparr>num_formats := 0\<rparr>))
   \<and> 1 \<le> sint (num_formats example_world) \<and> glGetProgramBinary_loaded example_world
   \<and> checkProgramBinarySupport example_world =
        (True, cout [Str ''Program binary supported. Number of formats: '', Num 1] example_world)"
  using checkProgramBinarySupport_asymmetry [of "example_world\<lparr>glGetProgramBinary_loaded := False\<rparr>"]
    checkProgramBinarySupport_asymmetry [of "example_world\<lparr>num_formats := 0\<rparr>"]
    checkProgramBinarySupport_asymmetry [of example_world]
  by (simp add: example_world_def)

text \<open>
  C6. When saveProgramBinary returns true, the file holds the four bytes of the format
  tag the retrieval call returned, then the four bytes of the length it returned, then
  that many bytes of the buffer, and nothing else; the length is positive. The length
  the earlier query reported does not enter. When the retrieval call returns no bytes
  (and no error), the function returns false without opening the file.
\<close>

theorem saveProgramBinary_layout:
  "(saveProgramBinary program f w = Some (True, w1) \<longrightarrow>
      (\<exists>obj actualLength binaryFormat binaryData.
          programs w program = Some obj
        \<and> fst (glGetProgramBinary program (nat (sint (binary_length obj)))
                 (0, 0, replicate (nat (sint (binary_length obj))) 0)
                 (cout [Str ''Program binary length: '', Num (sint (binary_length obj)),
                        Str '' bytes''] (snd (checkProgramBinarySupport w))))
            = (actualLength, binaryFormat, binaryData)
        \<and> files w1 f = Some (le_bytes binaryFormat @ le_bytes actualLength @
                             take (nat (sint actualLength)) binaryData)
        \<and> length (le_bytes binaryFormat) = 4 \<and> length (le_bytes actualLength) = 4
        \<and> length (take (nat (sint actualLength)) binaryData) = nat (sint actualLength)
        \<and> 0 < sint actualLength
        \<and> actualLength = of_nat (length (binary obj))))
   \<and> (program \<noteq> 0 \<and> programs w program = Some obj \<and> link_status obj = GL_TRUE
        \<and> 1 \<le> sint (num_formats w) \<and> glGetProgramBinary_loaded w
        \<and> 0 < sint (binary_length obj) \<and> gl_error w = GL_NO_ERROR \<and> binary obj = [] \<longrightarrow>
      (\<exists>w'. saveProgramBinary program f w = Some (False, w')
          \<and> last (out w') = [Str ''No binary data retrieved'']
          \<and> files w' = files w \<and> io w' = io w))"
proof (intro conjI impI)
  assume "saveProgramBinary program f w = Some (True, w1)"
  then obtain obj where o: "program \<noteq> 0" "programs w program = Some obj"
      "1 \<le> sint (num_formats w)" "glGetProgramBinary_loaded w"
      "length (binary obj) \<le> nat (sint (binary_length obj))" "binary obj \<noteq> []"
      "w1 = saved_world obj f w"
    using save_True_D by blast
  have al: "sint (of_nat (length (binary obj)) :: 32 word) = int (length (binary obj))"
    using o(5) by (rule sint_of_nat_small)
  have named: "program_named w program = Some obj"
    using o(1,2) by (simp add: program_named_def)
  have c: "checkProgramBinarySupport w =
      (True, cout [Str ''Program binary supported. Number of formats: '', Num (sint (num_formats w))] w)"
    using o(3,4) by (simp add: check_supported)
  have g: "fst (glGetProgramBinary program (nat (sint (binary_length obj)))
                 (0, 0, replicate (nat (sint (binary_length obj))) 0)
                 (cout [Str ''Program binary length: '', Num (sint (binary_length obj)),
                        Str '' bytes''] (snd (checkProgramBinarySupport w))))
       = (of_nat (length (binary obj)), binary_format obj,
          binary obj @ drop (length (binary obj)) (replicate (nat (sint (binary_length obj))) 0))"
    using named o(5) by (simp add: c cout_def glGetProgramBinary_fits)
  show "\<exists>obj actualLength binaryFormat binaryData.
          programs w program = Some obj
        \<and> fst (glGetProgramBinary program (nat (sint (binary_length obj)))
                 (0, 0, replicate (nat (sint (binary_length obj))) 0)
                 (cout [Str ''Program binary length: '', Num (sint (binary_length obj)),
                        Str '' bytes''] (snd (checkProgramBinarySupport w))))
            = (actualLength, binaryFormat, binaryData)
        \<and> files w1 f = Some (le_bytes binaryFormat @ le_bytes actualLength @
                             take (nat (sint actualLength)) binaryData)
        \<and> length (le_bytes binaryFormat) = 4 \<and> length (le_bytes actualLength) = 4
        \<and> length (take (nat (sint actualLength)) binaryData) = nat (sint actualLength)
        \<and> 0 < sint actualLength
        \<and> actualLength = of_nat (length (binary obj))"
    apply (rule exI [of _ obj])
    apply (rule exI [of _ "of_nat (length (binary obj))"])
    apply (rule exI [of _ "binary_format obj"])
    apply (rule exI [of _ "binary obj @ drop (length (binary obj)) (replicate (nat (sint (binary_length obj))) 0)"])
    using o(2,6,7) g al
    apply (simp add: saved_world_def)
    done
next
  assume a: "program \<noteq> 0 \<and> programs w program = Some obj \<and> link_status obj = GL_TRUE
        \<and> 1 \<le> sint (num_formats w) \<and> glGetProgramBinary_loaded w
        \<and> 0 < sint (binary_length obj) \<and> gl_error w = GL_NO_ERROR \<and> binary obj = []"
  then have named: "program_named w program = Some obj"
    by (simp add: program_named_def)
  have ne: "(0 :: 32 word) \<noteq> binary_length obj"
    using a by auto
  from a named ne show "\<exists>w'. saveProgramBinary program f w = Some (False, w')
          \<and> last (out w') = [Str ''No binary data retrieved'']
          \<and> files w' = files w \<and> io w' = io w"
    by (simp add: saveProgramBinary_def glGetProgramiv_Some eval check_supported
          glGetProgramBinary_fits)
qed

theorem saveProgramBinary_layout_witness:
  "saveProgramBinary 1 ''a.bin'' example_world
     = Some (True, saved_world example_program ''a.bin'' example_world)
   \<and> files (saved_world example_program ''a.bin'' example_world) ''a.bin''
     = Some [0x40, 0x87, 0, 0, 3, 0, 0, 0, 1, 2, 3]
   \<and> sint (binary_length example_program) = 5
   \<and> binary (example_program\<lparr>binary := []\<rparr>) = []
   \<and> (\<exists>w'. saveProgramBinary 1 ''a.bin''
              (example_world\<lparr>programs := [1 \<mapsto> example_program\<lparr>binary := []\<rparr>]\<rparr>)
            = Some (False, w')
          \<and> last (out w') = [Str ''No binary data retrieved''] \<and> io w' = [])"
proof -
  have run: "saveProgramBinary 1 ''a.bin'' example_world
     = Some (True, saved_world example_program ''a.bin'' example_world)"
    by (rule save_success_run)
       (simp_all add: example_world_def example_program_def GL_TRUE_def GL_NO_ERROR_def)
  from saveProgramBinary_layout [of 1 "''a.bin''" example_world
         "saved_world example_program ''a.bin'' example_world" example_program] run
  have first: "files (saved_world example_program ''a.bin'' example_world) ''a.bin''
     = Some [0x40, 0x87, 0, 0, 3, 0, 0, 0, 1, 2, 3]
   \<and> sint (binary_length example_program) = 5"
    by (simp add: saved_world_def example_world_def example_program_def le_bytes_def)
  from saveProgramBinary_layout [of 1 "''a.bin''"
         "example_world\<lparr>programs := [1 \<mapsto> example_program\<lparr>binary := []\<rparr>]\<rparr>"
         undefined "example_program\<lparr>binary := []\<rparr>"]
  have second: "\<exists>w'. saveProgramBinary 1 ''a.bin''
              (example_world\<lparr>programs := [1 \<mapsto> example_program\<lparr>binary := []\<rparr>]\<rparr>)
            = Some (False, w')
          \<and> last (out w') = [Str ''No binary data retrieved''] \<and> io w' = []"
    by (auto simp: example_world_def example_program_def GL_TRUE_def GL_NO_ERROR_def)
  from run first second show ?thesis by simp
qed

text \<open>
  C7. saveProgramBinary tests, in this order: the handle is not 0; the program's link
  status is GL\_TRUE; the probe succeeds; the queried binary length is positive. Each
  failure returns false with the world changed by its own line of output only (after
  the probe's line, where the probe has run), whatever the later tests would have found;
  the four lines differ.
\<close>

theorem saveProgramBinary_precondition_order:
  "saveProgramBinary 0 f w = Some (False, cout [Str ''Invalid program object''] w)
   \<and> (program \<noteq> 0 \<and> programs w program = Some obj \<and> link_status obj \<noteq> GL_TRUE \<longrightarrow>
        saveProgramBinary program f w =
          Some (False, cout [Str ''Program is not successfully linked''] w))
   \<and> (program \<noteq> 0 \<and> programs w program = Some obj \<and> link_status obj = GL_TRUE
        \<and> sint (num_formats w) < 1 \<longrightarrow>
        saveProgramBinary program f w =
          Some (False, cout [Str ''Program binary not supported, cannot save'']
                         (snd (checkProgramBinarySupport w))))
   \<and> (program \<noteq> 0 \<and> programs w program = Some obj \<and> link_status obj = GL_TRUE
        \<and> 1 \<le> sint (num_formats w) \<and> sint (binary_length obj) \<le> 0 \<longrightarrow>
        saveProgramBinary program f w =
          Some (False, cout [Str ''Program binary length is 0 or invalid: '',
                             Num (sint (binary_length obj))]
                         (snd (checkProgramBinarySupport w))))
   \<and> distinct [[Str ''Invalid program object''], [Str ''Program is not successfully linked''],
        [Str ''Program binary not supported, cannot save''],
        [Str ''Program binary length is 0 or invalid: '', Num (sint (binary_length obj))]]"
proof -
  have 1: "saveProgramBinary 0 f w = Some (False, cout [Str ''Invalid program object''] w)"
    by (simp add: saveProgramBinary_def)
  have 2: "saveProgramBinary program f w =
          Some (False, cout [Str ''Program is not successfully linked''] w)"
    if "program \<noteq> 0" "programs w program = Some obj" "link_status obj \<noteq> GL_TRUE"
    using that by (simp add: saveProgramBinary_def glGetProgramiv_Some program_named_def)
  have 3: "saveProgramBinary program f w =
          Some (False, cout [Str ''Program binary not supported, cannot save'']
                         (snd (checkProgramBinarySupport w)))"
    if "program \<noteq> 0" "programs w program = Some obj" "link_status obj = GL_TRUE"
      "sint (num_formats w) < 1"
    using that
    by (simp add: saveProgramBinary_def glGetProgramiv_Some program_named_def check_unsupported)
  have 4: "saveProgramBinary program f w =
          Some (False, cout [Str ''Program binary length is 0 or invalid: '',
                             Num (sint (binary_length obj))]
                         (snd (checkProgramBinarySupport w)))"
    if "program \<noteq> 0" "programs w program = Some obj" "link_status obj = GL_TRUE"
      "1 \<le> sint (num_formats w)" "sint (binary_length obj) \<le> 0"
  proof -
    from that(4) obtain l where c: "checkProgramBinarySupport w = (True, cout l w)"
      using check_true [of w] by auto
    from that show ?thesis
      by (simp add: saveProgramBinary_def glGetProgramiv_Some program_named_def c cout_def)
  qed
  from 1 2 3 4 show ?thesis by simp
qed

theorem saveProgramBinary_precondition_order_witness:
  "saveProgramBinary 0 ''a.bin'' example_world
     = Some (False, cout [Str ''Invalid program object''] example_world)
   \<and> link_status (example_program\<lparr>link_status := GL_FALSE\<rparr>) \<noteq> GL_TRUE
   \<and> saveProgramBinary 1 ''a.bin''
        (example_world\<lparr>programs := [1 \<mapsto> example_program\<lparr>link_status := GL_FALSE\<rparr>]\<rparr>)
     = Some (False, cout [Str ''Program is not successfully linked'']
              (example_world\<lparr>programs := [1 \<mapsto> example_program\<lparr>link_status := GL_FALSE\<rparr>]\<rparr>))
   \<and> link_status example_program = GL_TRUE
   \<and> sint (num_formats (example_world\<lparr>num_formats := 0\<rparr>)) < 1
   \<and> saveProgramBinary 1 ''a.bin'' (example_world\<lparr>num_formats := 0\<rparr>) =
        Some (False, cout [Str ''Program binary not supported, cannot save'']
                       (snd (checkProgramBinarySupport (example_world\<lparr>num_formats := 0\<rparr>))))
   \<and> sint (binary_length (example_program\<lparr>binary_length := 0\<rparr>)) \<le> 0
   \<and> saveProgramBinary 1 ''a.bin''
        (example_world\<lparr>programs := [1 \<mapsto> example_program\<lparr>binary_length := 0\<rparr>]\<rparr>)
     = Some (False, cout [Str ''Program binary length is 0 or invalid: '', Num 0]
              (snd (checkProgramBinarySupport
                (example_world\<lparr>programs := [1 \<mapsto> example_program\<lparr>binary_length := 0\<rparr>]\<rparr>))))"
  using saveProgramBinary_precondition_order
          [of "''a.bin''" example_world 1 example_program]
        saveProgramBinary_precondition_order
          [of "''a.bin''"
              "example_world\<lparr>programs := [1 \<mapsto> example_program\<lparr>link_status := GL_FALSE\<rparr>]\<rparr>"
              1 "example_program\<lparr>link_status := GL_FALSE\<rparr>"]
        saveProgramBinary_precondition_order
          [of "''a.bin''" "example_world\<lparr>num_formats := 0\<rparr>" 1 example_program]
        saveProgramBinary_precondition_order
          [of "''a.bin''"
              "example_world\<lparr>programs := [1 \<mapsto> example_program\<lparr>binary_length := 0\<rparr>]\<rparr>"
              1 "example_program\<lparr>binary_length := 0\<rparr>"]
  by (simp add: example_world_def example_program_def GL_TRUE_def GL_FALSE_def)

text \<open>
  C8. As stated, for every file whose header declares more bytes than follow, the claim
  fails: the buffer of the declared length is allocated before the read, and when that
  allocation fails the function returns nothing, so no sentinel either. Here the header
  declares 2147483647 bytes, three follow, and no more than 1 GiB can be had.
\<close>

theorem loadProgramBinary_truncated_counterexample:
  "files (example_world\<lparr>files := [''a.bin'' \<mapsto> [0x40, 0x87, 0, 0, 0xFF, 0xFF, 0xFF, 0x7F, 1, 2, 3]],
                         can_allocate := (\<lambda>n. n \<le> 1073741824)\<rparr>) ''a.bin''
      = Some [0x40, 0x87, 0, 0, 0xFF, 0xFF, 0xFF, 0x7F, 1, 2, 3]
   \<and> sint (le_word (take 4 (drop 4 [0x40, 0x87, 0, 0, 0xFF, 0xFF, 0xFF, 0x7F, 1, 2, 3 :: GLubyte])))
      = 2147483647
   \<and> loadProgramBinary ''a.bin''
        (example_world\<lparr>files := [''a.bin'' \<mapsto> [0x40, 0x87, 0, 0, 0xFF, 0xFF, 0xFF, 0x7F, 1, 2, 3]],
                       can_allocate := (\<lambda>n. n \<le> 1073741824)\<rparr>)
      = None"
proof -
  define content :: "GLubyte list" where
    "content = [0x40, 0x87, 0, 0, 0xFF, 0xFF, 0xFF, 0x7F, 1, 2, 3]"
  define W where "W = example_world\<lparr>files := [''a.bin'' \<mapsto> content],
                         can_allocate := (\<lambda>n. n \<le> 1073741824)\<rparr>"
  have len: "sint (le_word (take 4 (drop 4 content))) = 2147483647"
    by (simp add: content_def le_word_def)
  have "loadProgramBinary ''a.bin'' W = None"
    by (rule load_bad_alloc [where content = content])
       (simp_all add: len, simp_all add: W_def example_world_def content_def)
  with len show ?thesis
    by (simp add: W_def content_def)
qed

text \<open>
  C8, amended. When the buffer can be allocated, a file whose header (eight bytes
  present) declares a positive length greater than the number of bytes that follow makes
  loadProgramBinary return 0: where the probe succeeds it prints the incomplete-read line
  with the two counts. No program object is created and the driver is left as it was.
\<close>

theorem loadProgramBinary_truncated:
  assumes "files w f = Some content" and "8 \<le> length content"
    and "0 < sint (le_word (take 4 (drop 4 content)))"
    and "length content - 8 < nat (sint (le_word (take 4 (drop 4 content))))"
    and "can_allocate w (nat (sint (le_word (take 4 (drop 4 content)))))"
  shows "\<exists>w'. loadProgramBinary f w = Some (0, w')
          \<and> programs w' = programs w \<and> new_names w' = new_names w
          \<and> gl_error w' = gl_error w
          \<and> (\<not> sint (num_formats w) < 1 \<longrightarrow>
                last (out w') = [Str ''File read incomplete. Expected: '',
                                 Num (sint (le_word (take 4 (drop 4 content)))),
                                 Str '', Actual: '', Num (int (length content - 8))])"
proof (cases "sint (num_formats w) < 1")
  case True
  then show ?thesis by (simp add: load_unsupported cout_def)
next
  case False
  then obtain l where c: "checkProgramBinarySupport w = (True, cout l w)"
    using check_true by blast
  from False assms show ?thesis
    by (simp add: load_truncated c cout_def log_io_def)
qed

theorem loadProgramBinary_truncated_witness:
  "files (example_world\<lparr>files := [''a.bin'' \<mapsto> [0x40, 0x87, 0, 0, 5, 0, 0, 0, 1, 2, 3]]\<rparr>) ''a.bin''
      = Some [0x40, 0x87, 0, 0, 5, 0, 0, 0, 1, 2, 3]
   \<and> sint (le_word (take 4 (drop 4 [0x40, 0x87, 0, 0, 5, 0, 0, 0, 1, 2, 3 :: GLubyte]))) = 5
   \<and> can_allocate (example_world\<lparr>files := [''a.bin'' \<mapsto> [0x40, 0x87, 0, 0, 5, 0, 0, 0, 1, 2, 3]]\<rparr>) 5
   \<and> (\<exists>w'. loadProgramBinary ''a.bin''
              (example_world\<lparr>files := [''a.bin'' \<mapsto> [0x40, 0x87, 0, 0, 5, 0, 0, 0, 1, 2, 3]]\<rparr>)
            = Some (0, w')
          \<and> programs w' = [1 \<mapsto> example_program] \<and> new_names w' = [7, 8, 9]
          \<and> last (out w') = [Str ''File read incomplete. Expected: '', Num 5,
                               Str '', Actual: '', Num 3])"
  using loadProgramBinary_truncated
    [of "example_world\<lparr>files := [''a.bin'' \<mapsto> [0x40, 0x87, 0, 0, 5, 0, 0, 0, 1, 2, 3]]\<rparr>"
        "''a.bin''" "[0x40, 0x87, 0, 0, 5, 0, 0, 0, 1, 2, 3]"]
  by (auto simp: example_world_def le_word_def)

text \<open>
  C9. A file whose header (eight bytes present) declares a length that is zero or
  negative makes loadProgramBinary return 0 after the two header reads: no third read
  is issued, no program object is created, the driver is left as it was. (Where the
  probe fails, the file is not even opened.)
\<close>

theorem loadProgramBinary_zero_length:
  assumes "files w f = Some content" and "8 \<le> length content"
    and "sint (le_word (take 4 (drop 4 content))) \<le> 0"
  shows "\<exists>w'. loadProgramBinary f w = Some (0, w')
          \<and> io w' = io w @ (if sint (num_formats w) < 1 then []
                             else [Open_in f, Read_in f 4, Read_in f 4])
          \<and> programs w' = programs w \<and> new_names w' = new_names w
          \<and> gl_error w' = gl_error w \<and> files w' = files w"
proof (cases "sint (num_formats w) < 1")
  case True
  then show ?thesis by (simp add: load_unsupported cout_def)
next
  case False
  then obtain l where c: "checkProgramBinarySupport w = (True, cout l w)"
    using check_true by blast
  from False assms show ?thesis
    by (simp add: load_zero_length c cout_def log_io_def)
qed

theorem loadProgramBinary_zero_length_witness:
  "files (example_world\<lparr>files := [''a.bin'' \<mapsto> [0x40, 0x87, 0, 0, 0, 0, 0, 0, 1, 2, 3]]\<rparr>) ''a.bin''
      = Some [0x40, 0x87, 0, 0, 0, 0, 0, 0, 1, 2, 3]
   \<and> sint (le_word (take 4 (drop 4 [0x40, 0x87, 0, 0, 0, 0, 0, 0, 1, 2, 3 :: GLubyte]))) \<le> 0
   \<and> (\<exists>w'. loadProgramBinary ''a.bin''
              (example_world\<lparr>files := [''a.bin'' \<mapsto> [0x40, 0x87, 0, 0, 0, 0, 0, 0, 1, 2, 3]]\<rparr>)
            = Some (0, w')
          \<and> io w' = [Open_in ''a.bin'', Read_in ''a.bin'' 4, Read_in ''a.bin'' 4])"
  using loadProgramBinary_zero_length
    [of "example_world\<lparr>files := [''a.bin'' \<mapsto> [0x40, 0x87, 0, 0, 0, 0, 0, 0, 1, 2, 3]]\<rparr>"
        "''a.bin''" "[0x40, 0x87, 0, 0, 0, 0, 0, 0, 1, 2, 3]"]
  by (auto simp: example_world_def le_word_def)



end
